theory Spec2Isabelle
  imports Complex_Main "HOL-Library.Monad_Syntax"
begin

section \<open>Numbers\<close>

text \<open>
  The source computes with JavaScript numbers. They are modelled as exact reals: the
  development is about the formulas of the rating engine and the control flow of the queue
  and the draft, not about binary rounding.

  A JavaScript division never raises; with a zero divisor it yields \<open>Infinity\<close> or \<open>NaN\<close>.
  The model makes that outcome visible: \<open>js_div\<close> returns \<open>None\<close> when the divisor is zero,
  and every function that divides by a computed value returns an option. Divisions by a
  non-zero literal (\<open>/ 100\<close>, \<open>/ 400\<close>, \<open>/ 5\<close>) are written with the division of the reals.

  The reals have neither \<open>Infinity\<close> nor \<open>NaN\<close>, so a real-valued definition describes a
  computation as long as no intermediate result leaves the range of the doubles. For the
  performance score that is not enough: its range is at stake exactly where a sum
  overflows. The section on numbers with \<open>Infinity\<close> and \<open>NaN\<close> gives the performance score
  on all inputs, and lemma \<open>calculatePerformanceScore_ext_finite\<close> shows that it returns the
  values of the real-valued definition whenever the sums and the two KDA ratios stay
  within the range.
\<close>

definition js_div :: "real \<Rightarrow> real \<Rightarrow> real option" where
  "js_div x y = (if y = 0 then None else Some (x / y))"

text \<open>\<open>Math.round\<close> rounds to the nearest integer, a half towards plus infinity.\<close>

definition Math_round :: "real \<Rightarrow> real" where
  "Math_round x = of_int \<lfloor>x + 1 / 2\<rfloor>"

text \<open>\<open>clamp(value, min, max) = Math.max(min, Math.min(max, value))\<close>\<close>

definition clamp :: "real \<Rightarrow> real \<Rightarrow> real \<Rightarrow> real" where
  "clamp val mn mx = max mn (min mx val)"

section \<open>The rating engine\<close>

datatype team = Blue | Red

record mmr_config =
  BASE_CHANGE :: real
  PLACEMENT_MULTIPLIER :: real
  PLACEMENT_GAMES :: nat
  MIN_MMR :: real
  MAX_MMR :: real
  weight_kda :: real
  weight_damage :: real
  weight_cs :: real
  weight_vision :: real
  weight_objective :: real
  MIN_PERFORMANCE_MULTIPLIER :: real
  MAX_PERFORMANCE_MULTIPLIER :: real
  MIN_OPPONENT_MULTIPLIER :: real
  MAX_OPPONENT_MULTIPLIER :: real

definition MMR_CONFIG :: mmr_config where
  "MMR_CONFIG = \<lparr>
     BASE_CHANGE = 25,
     PLACEMENT_MULTIPLIER = 2,
     PLACEMENT_GAMES = 5,
     MIN_MMR = 100,
     MAX_MMR = 3000,
     weight_kda = 30 / 100,
     weight_damage = 25 / 100,
     weight_cs = 20 / 100,
     weight_vision = 15 / 100,
     weight_objective = 10 / 100,
     MIN_PERFORMANCE_MULTIPLIER = 5 / 10,
     MAX_PERFORMANCE_MULTIPLIER = 15 / 10,
     MIN_OPPONENT_MULTIPLIER = 8 / 10,
     MAX_OPPONENT_MULTIPLIER = 12 / 10 \<rparr>"

record PlayerStats =
  ps_odId :: string
  ps_team :: team
  ps_kills :: real
  ps_deaths :: real
  ps_assists :: real
  ps_cs :: real
  ps_damage :: real
  ps_visionScore :: real
  ps_objectiveScore :: real
  ps_mmrAtTime :: real

record MatchContext =
  mc_winner :: team
  mc_blueTeamAvgMmr :: real
  mc_redTeamAvgMmr :: real
  mc_allPlayerStats :: "PlayerStats list"

record PerformanceBreakdown =
  pb_kdaScore :: real
  pb_damageScore :: real
  pb_csScore :: real
  pb_visionScore :: real
  pb_objectiveScore :: real
  pb_totalScore :: real
  pb_multiplier :: real

text \<open>\<open>average\<close>: 0 on the empty array, else the sum (a left fold from 0) over the length.\<close>

definition average :: "real list \<Rightarrow> real option" where
  "average numbers =
     (if length numbers = 0 then Some 0
      else js_div (foldl (\<lambda>sum n. sum + n) 0 numbers) (real (length numbers)))"

definition normalizeScore :: "real \<Rightarrow> real \<Rightarrow> real option" where
  "normalizeScore val avg =
     (if avg = 0 then Some 50
      else do {
        ratio \<leftarrow> js_div val avg;
        let score = ratio * 50;
        Some (clamp score 0 100)
      })"

definition scoreToMultiplier :: "real \<Rightarrow> real" where
  "scoreToMultiplier score =
     (let multiplier = 5 / 10 + score / 100
      in clamp multiplier (MIN_PERFORMANCE_MULTIPLIER MMR_CONFIG)
           (MAX_PERFORMANCE_MULTIPLIER MMR_CONFIG))"

definition calculatePerformanceScore ::
  "PlayerStats \<Rightarrow> PlayerStats list \<Rightarrow> (real \<times> PerformanceBreakdown) option" where
  "calculatePerformanceScore playerStats allStats = do {
     avgKills \<leftarrow> average (map ps_kills allStats);
     avgDeaths \<leftarrow> average (map ps_deaths allStats);
     avgAssists \<leftarrow> average (map ps_assists allStats);
     avgDamage \<leftarrow> average (map ps_damage allStats);
     avgCs \<leftarrow> average (map ps_cs allStats);
     avgVision \<leftarrow> average (map ps_visionScore allStats);
     avgObjective \<leftarrow> average (map ps_objectiveScore allStats);
     playerKda \<leftarrow>
       (if ps_deaths playerStats = 0
        then Some ((ps_kills playerStats + ps_assists playerStats) * 2)
        else js_div (ps_kills playerStats + ps_assists playerStats) (ps_deaths playerStats));
     avgKda \<leftarrow>
       (if avgDeaths = 0
        then Some ((avgKills + avgAssists) * 2)
        else js_div (avgKills + avgAssists) avgDeaths);
     kdaScore \<leftarrow> normalizeScore playerKda avgKda;
     damageScore \<leftarrow> normalizeScore (ps_damage playerStats) avgDamage;
     csScore \<leftarrow> normalizeScore (ps_cs playerStats) avgCs;
     visionScoreVal \<leftarrow> normalizeScore (ps_visionScore playerStats) avgVision;
     objectiveScoreVal \<leftarrow> normalizeScore (ps_objectiveScore playerStats) avgObjective;
     let totalScore =
       kdaScore * weight_kda MMR_CONFIG +
       damageScore * weight_damage MMR_CONFIG +
       csScore * weight_cs MMR_CONFIG +
       visionScoreVal * weight_vision MMR_CONFIG +
       objectiveScoreVal * weight_objective MMR_CONFIG;
     let multiplier = scoreToMultiplier totalScore;
     Some (Math_round totalScore,
       \<lparr> pb_kdaScore = Math_round kdaScore,
         pb_damageScore = Math_round damageScore,
         pb_csScore = Math_round csScore,
         pb_visionScore = Math_round visionScoreVal,
         pb_objectiveScore = Math_round objectiveScoreVal,
         pb_totalScore = Math_round totalScore,
         pb_multiplier = Math_round (multiplier * 100) / 100 \<rparr>)
   }"

text \<open>
  \<open>Math.pow(10, x)\<close> is the real power \<open>10 powr x\<close>. The expected-outcome probability
  divides by \<open>1 + 10 powr x\<close>, a computed value, so the function returns an option.
\<close>

definition calculateOpponentMultiplier :: "real \<Rightarrow> real \<Rightarrow> bool \<Rightarrow> real option" where
  "calculateOpponentMultiplier playerMmr opponentAvgMmr didWin = do {
     let mmrDiff = opponentAvgMmr - playerMmr;
     expectedWin \<leftarrow> js_div 1 (1 + 10 powr (mmrDiff / 400));
     let multiplier =
       (if didWin then 1 + (1 - expectedWin) * (4 / 10) else 1 + expectedWin * (4 / 10));
     Some (clamp multiplier (MIN_OPPONENT_MULTIPLIER MMR_CONFIG)
             (MAX_OPPONENT_MULTIPLIER MMR_CONFIG))
   }"

text \<open>
  \<open>unroundedChange\<close> is the value of the variable \<open>change\<close> of \<open>calculateMMRChange\<close> just
  before the final \<open>Math.round\<close>: base change, sign, performance multiplier, opponent
  multiplier and placement multiplier, applied in the order of the source.
\<close>

definition unroundedChange :: "PlayerStats \<Rightarrow> MatchContext \<Rightarrow> bool \<Rightarrow> real option" where
  "unroundedChange playerStats context isPlacement = do {
     let didWin = (ps_team playerStats = mc_winner context);
     (performanceScore, breakdown) \<leftarrow>
       calculatePerformanceScore playerStats (mc_allPlayerStats context);
     let change = BASE_CHANGE MMR_CONFIG;
     let change = change * (if didWin then 1 else - 1);
     let performanceMultiplier = pb_multiplier breakdown;
     let change = change * performanceMultiplier;
     let opponentTeamAvgMmr =
       (if ps_team playerStats = Blue then mc_redTeamAvgMmr context
        else mc_blueTeamAvgMmr context);
     opponentMultiplier \<leftarrow>
       calculateOpponentMultiplier (ps_mmrAtTime playerStats) opponentTeamAvgMmr didWin;
     let change = change * opponentMultiplier;
     let change = (if isPlacement then change * PLACEMENT_MULTIPLIER MMR_CONFIG else change);
     Some change
   }"

definition calculateMMRChange ::
  "PlayerStats \<Rightarrow> MatchContext \<Rightarrow> bool \<Rightarrow> (real \<times> real \<times> PerformanceBreakdown) option" where
  "calculateMMRChange playerStats context isPlacement = do {
     (performanceScore, breakdown) \<leftarrow>
       calculatePerformanceScore playerStats (mc_allPlayerStats context);
     change \<leftarrow> unroundedChange playerStats context isPlacement;
     Some (Math_round change, performanceScore, breakdown)
   }"

definition applyMMRChange :: "real \<Rightarrow> real \<Rightarrow> real" where
  "applyMMRChange currentMmr change =
     (let newMmr = currentMmr + change
      in clamp newMmr (MIN_MMR MMR_CONFIG) (MAX_MMR MMR_CONFIG))"

section \<open>The performance score on numbers with Infinity and NaN\<close>

text \<open>
  A JavaScript number is a double: a finite value, \<open>Infinity\<close>, \<open>-Infinity\<close> or \<open>NaN\<close>. The
  largest double is \<open>2 ^ 1024 - 2 ^ 971\<close>; a result of an arithmetic operation whose
  magnitude reaches \<open>2 ^ 1024 - 2 ^ 970\<close>, half a unit in the last place above it, is rounded
  to an infinity. \<open>js_number\<close> is that rounding; below the bound it keeps the exact value, so
  the rounding of the mantissa inside the range, and with it the underflow of a tiny
  result to zero, is not modelled. A statistic of the request enters the computation
  through \<open>js_number\<close> as well, as \<open>JSON.parse\<close> reads a literal beyond the range as an
  infinity.

  The operations follow IEEE 754: \<open>NaN\<close> is absorbing, \<open>Infinity - Infinity\<close>,
  \<open>0 * Infinity\<close>, \<open>Infinity / Infinity\<close> and \<open>0 / 0\<close> are \<open>NaN\<close>, and a finite value divided
  by an infinity is 0. The sign of a zero is not modelled: \<open>Finite 0\<close> stands for \<open>+0\<close> and
  \<open>-0\<close>, which \<open>===\<close> does not tell apart. It decides only the sign of a quotient with a
  zero divisor, for which \<open>js_quot\<close> gives the result for \<open>+0\<close>; \<open>js_div_ext\<close>, like \<open>js_div\<close>,
  returns \<open>None\<close> there, so that a division by zero stays visible.
\<close>

datatype number = Finite real | Infinity | NegInfinity | NaN

definition overflow_bound :: real where
  "overflow_bound = 2 ^ 1024 - 2 ^ 970"

definition js_number :: "real \<Rightarrow> number" where
  "js_number x =
     (if overflow_bound \<le> x then Infinity
      else if x \<le> - overflow_bound then NegInfinity
      else Finite x)"

fun js_add :: "number \<Rightarrow> number \<Rightarrow> number" where
  "js_add (Finite x) (Finite y) = js_number (x + y)"
| "js_add NaN y = NaN"
| "js_add x NaN = NaN"
| "js_add Infinity NegInfinity = NaN"
| "js_add NegInfinity Infinity = NaN"
| "js_add Infinity y = Infinity"
| "js_add x Infinity = Infinity"
| "js_add NegInfinity y = NegInfinity"
| "js_add x NegInfinity = NegInfinity"

fun js_mul :: "number \<Rightarrow> number \<Rightarrow> number" where
  "js_mul (Finite x) (Finite y) = js_number (x * y)"
| "js_mul NaN y = NaN"
| "js_mul x NaN = NaN"
| "js_mul (Finite x) y =
     (if x = 0 then NaN else if (0 < x) = (y = Infinity) then Infinity else NegInfinity)"
| "js_mul x (Finite y) =
     (if y = 0 then NaN else if (0 < y) = (x = Infinity) then Infinity else NegInfinity)"
| "js_mul x y = (if x = y then Infinity else NegInfinity)"

fun js_quot :: "number \<Rightarrow> number \<Rightarrow> number" where
  "js_quot (Finite x) (Finite y) =
     (if y = 0 then (if x = 0 then NaN else if 0 < x then Infinity else NegInfinity)
      else js_number (x / y))"
| "js_quot NaN y = NaN"
| "js_quot x NaN = NaN"
| "js_quot (Finite x) y = Finite 0"
| "js_quot x (Finite y) = (if (0 \<le> y) = (x = Infinity) then Infinity else NegInfinity)"
| "js_quot x y = NaN"

definition js_div_ext :: "number \<Rightarrow> number \<Rightarrow> number option" where
  "js_div_ext x y = (if y = Finite 0 then None else Some (js_quot x y))"

text \<open>
  \<open>Math.min\<close> and \<open>Math.max\<close> return \<open>NaN\<close> when an argument is \<open>NaN\<close>; \<open>Math.round\<close> leaves
  \<open>NaN\<close> and the infinities as they are.
\<close>

fun Math_min :: "number \<Rightarrow> number \<Rightarrow> number" where
  "Math_min (Finite x) (Finite y) = Finite (min x y)"
| "Math_min NaN y = NaN"
| "Math_min x NaN = NaN"
| "Math_min NegInfinity y = NegInfinity"
| "Math_min x NegInfinity = NegInfinity"
| "Math_min Infinity y = y"
| "Math_min x Infinity = x"

fun Math_max :: "number \<Rightarrow> number \<Rightarrow> number" where
  "Math_max (Finite x) (Finite y) = Finite (max x y)"
| "Math_max NaN y = NaN"
| "Math_max x NaN = NaN"
| "Math_max Infinity y = Infinity"
| "Math_max x Infinity = Infinity"
| "Math_max NegInfinity y = y"
| "Math_max x NegInfinity = x"

fun Math_round_ext :: "number \<Rightarrow> number" where
  "Math_round_ext (Finite x) = js_number (Math_round x)"
| "Math_round_ext x = x"

text \<open>
  The functions of the source, over these numbers. \<open>avg === 0\<close> holds for a zero only: it
  is false for \<open>NaN\<close> and for the infinities.
\<close>

definition clamp_ext :: "number \<Rightarrow> number \<Rightarrow> number \<Rightarrow> number" where
  "clamp_ext val mn mx = Math_max mn (Math_min mx val)"

definition average_ext :: "number list \<Rightarrow> number option" where
  "average_ext numbers =
     (if length numbers = 0 then Some (Finite 0)
      else js_div_ext (foldl (\<lambda>sum n. js_add sum n) (Finite 0) numbers)
             (Finite (real (length numbers))))"

definition normalizeScore_ext :: "number \<Rightarrow> number \<Rightarrow> number option" where
  "normalizeScore_ext val avg =
     (if avg = Finite 0 then Some (Finite 50)
      else do {
        ratio \<leftarrow> js_div_ext val avg;
        let score = js_mul ratio (Finite 50);
        Some (clamp_ext score (Finite 0) (Finite 100))
      })"

definition scoreToMultiplier_ext :: "number \<Rightarrow> number" where
  "scoreToMultiplier_ext score =
     (let multiplier = js_add (Finite (5 / 10)) (js_quot score (Finite 100))
      in clamp_ext multiplier (Finite (MIN_PERFORMANCE_MULTIPLIER MMR_CONFIG))
           (Finite (MAX_PERFORMANCE_MULTIPLIER MMR_CONFIG)))"

record PerformanceBreakdown_ext =
  pbx_kdaScore :: number
  pbx_damageScore :: number
  pbx_csScore :: number
  pbx_visionScore :: number
  pbx_objectiveScore :: number
  pbx_totalScore :: number
  pbx_multiplier :: number

definition calculatePerformanceScore_ext ::
  "PlayerStats \<Rightarrow> PlayerStats list \<Rightarrow> (number \<times> PerformanceBreakdown_ext) option" where
  "calculatePerformanceScore_ext playerStats allStats = do {
     avgKills \<leftarrow> average_ext (map (\<lambda>s. js_number (ps_kills s)) allStats);
     avgDeaths \<leftarrow> average_ext (map (\<lambda>s. js_number (ps_deaths s)) allStats);
     avgAssists \<leftarrow> average_ext (map (\<lambda>s. js_number (ps_assists s)) allStats);
     avgDamage \<leftarrow> average_ext (map (\<lambda>s. js_number (ps_damage s)) allStats);
     avgCs \<leftarrow> average_ext (map (\<lambda>s. js_number (ps_cs s)) allStats);
     avgVision \<leftarrow> average_ext (map (\<lambda>s. js_number (ps_visionScore s)) allStats);
     avgObjective \<leftarrow> average_ext (map (\<lambda>s. js_number (ps_objectiveScore s)) allStats);
     playerKda \<leftarrow>
       (if js_number (ps_deaths playerStats) = Finite 0
        then Some (js_mul (js_add (js_number (ps_kills playerStats))
                             (js_number (ps_assists playerStats))) (Finite 2))
        else js_div_ext (js_add (js_number (ps_kills playerStats))
                           (js_number (ps_assists playerStats)))
               (js_number (ps_deaths playerStats)));
     avgKda \<leftarrow>
       (if avgDeaths = Finite 0
        then Some (js_mul (js_add avgKills avgAssists) (Finite 2))
        else js_div_ext (js_add avgKills avgAssists) avgDeaths);
     kdaScore \<leftarrow> normalizeScore_ext playerKda avgKda;
     damageScore \<leftarrow> normalizeScore_ext (js_number (ps_damage playerStats)) avgDamage;
     csScore \<leftarrow> normalizeScore_ext (js_number (ps_cs playerStats)) avgCs;
     visionScoreVal \<leftarrow> normalizeScore_ext (js_number (ps_visionScore playerStats)) avgVision;
     objectiveScoreVal \<leftarrow>
       normalizeScore_ext (js_number (ps_objectiveScore playerStats)) avgObjective;
     let totalScore =
       js_add (js_add (js_add (js_add
         (js_mul kdaScore (Finite (weight_kda MMR_CONFIG)))
         (js_mul damageScore (Finite (weight_damage MMR_CONFIG))))
         (js_mul csScore (Finite (weight_cs MMR_CONFIG))))
         (js_mul visionScoreVal (Finite (weight_vision MMR_CONFIG))))
         (js_mul objectiveScoreVal (Finite (weight_objective MMR_CONFIG)));
     let multiplier = scoreToMultiplier_ext totalScore;
     Some (Math_round_ext totalScore,
       \<lparr> pbx_kdaScore = Math_round_ext kdaScore,
         pbx_damageScore = Math_round_ext damageScore,
         pbx_csScore = Math_round_ext csScore,
         pbx_visionScore = Math_round_ext visionScoreVal,
         pbx_objectiveScore = Math_round_ext objectiveScoreVal,
         pbx_totalScore = Math_round_ext totalScore,
         pbx_multiplier =
           js_quot (Math_round_ext (js_mul multiplier (Finite 100))) (Finite 100) \<rparr>)
   }"

section \<open>Documents and the store\<close>

text \<open>
  The handlers are Cloud Functions over a document store with the collections \<open>queue\<close>,
  \<open>drafts\<close>, \<open>mmr\<close>, \<open>users\<close> and \<open>matches\<close>. A collection is a map from document ids to
  documents; the queue is the list of its documents in the order in which
  \<open>db.collection('queue').get()\<close> returns them, since that order decides the matching.
  Server timestamps and \<open>new Date()\<close> are natural numbers handed to the handler, and so are
  the fresh document id and the random lobby password a handler draws.
\<close>

datatype PlayerRole = Top | Jungle | Mid | Adc | Support
datatype DraftPhaseType = Ban | Pick
datatype DraftStatus = Waiting | Banning | Picking | Completed | Cancelled

type_synonym timestamp = nat

datatype FunctionsErrorCode =
  unauthenticated | invalid_argument | not_found | failed_precondition | permission_denied
  | already_exists | internal

datatype HttpsError = HttpsError FunctionsErrorCode string

record QueueEntry =
  qe_odId :: string
  qe_oduid :: string
  qe_displayName :: string
  qe_photoURL :: "string option"
  qe_role :: PlayerRole
  qe_mmr :: real
  qe_region :: string
  qe_joinedAt :: timestamp

record DraftAction =
  da_phase :: nat
  da_type :: DraftPhaseType
  da_team :: team
  da_championId :: "string option"
  da_championName :: "string option"
  da_completedAt :: "timestamp option"
  da_isActive :: bool

record DraftPlayer =
  dp_odId :: string
  dp_oduid :: string
  dp_displayName :: string
  dp_photoURL :: "string option"
  dp_role :: PlayerRole
  dp_team :: team
  dp_mmr :: real
  dp_isReady :: bool
  dp_championId :: "string option"
  dp_championName :: "string option"

record DraftSession =
  ds_id :: string
  ds_createdAt :: timestamp
  ds_status :: DraftStatus
  ds_currentPhase :: nat
  ds_currentTeam :: team
  ds_phaseType :: DraftPhaseType
  ds_phaseStartedAt :: timestamp
  ds_phaseTimeLimit :: nat
  ds_blueTeam :: "DraftPlayer list"
  ds_redTeam :: "DraftPlayer list"
  ds_blueTeamAvgMmr :: real
  ds_redTeamAvgMmr :: real
  ds_actions :: "DraftAction list"
  ds_bannedChampions :: "string list"
  ds_fearlessMode :: bool
  ds_lobbyName :: "string option"
  ds_lobbyPassword :: "string option"
  ds_cancelReason :: "string option"

record HistoryEntry =
  he_matchId :: string
  he_mmrBefore :: real
  he_mmrAfter :: real
  he_change :: real
  he_performanceScore :: real
  he_timestamp :: timestamp

record MmrDoc =
  md_odId :: string
  md_mmr :: real
  md_gamesPlayed :: nat
  md_placementGamesPlayed :: nat
  md_isPlaced :: bool
  md_wins :: nat
  md_losses :: nat
  md_peakMmr :: real
  md_lastUpdated :: timestamp
  md_history :: "HistoryEntry list"

text \<open>Of a user document the handlers read the rank tiers of the linked accounts only.\<close>

record RiotAccount =
  ra_rankTier :: "string option"

record UserDoc =
  ud_uid :: string
  ud_displayName :: string
  ud_photoURL :: "string option"
  ud_riotAccounts :: "RiotAccount list"

record MatchPlayer =
  mp_odId :: string
  mp_oduid :: string
  mp_displayName :: string
  mp_role :: string
  mp_mmrAtTime :: real

record MatchTeam =
  mt_players :: "MatchPlayer list"
  mt_avgMmr :: real

record PlayerMatchStats =
  pm_odId :: string
  pm_oduid :: string
  pm_team :: team
  pm_champion :: string
  pm_role :: string
  pm_kills :: real
  pm_deaths :: real
  pm_assists :: real
  pm_cs :: real
  pm_damage :: real
  pm_visionScore :: real
  pm_objectiveScore :: real
  pm_performanceScore :: real
  pm_mmrChange :: real

record MatchDoc =
  m_id :: string
  m_createdAt :: timestamp
  m_createdBy :: string
  m_status :: string
  m_blueTeam :: MatchTeam
  m_redTeam :: MatchTeam
  m_winner :: team
  m_playerStats :: "PlayerMatchStats list"
  m_mmrProcessed :: bool

record Store =
  st_queue :: "(string \<times> QueueEntry) list"
  st_drafts :: "string \<rightharpoonup> DraftSession"
  st_mmr :: "string \<rightharpoonup> MmrDoc"
  st_users :: "string \<rightharpoonup> UserDoc"
  st_matches :: "string \<rightharpoonup> MatchDoc"

section \<open>The matchmaking queue\<close>

definition roles :: "PlayerRole list" where
  "roles = [Top, Jungle, Mid, Adc, Support]"

text \<open>
  An element of \<open>playersByRole[role]\<close>: the document id, the rating and the document. The
  role is stored with it; the source adds it when it selects the player
  (\<open>{ ...rolePlayers[0], role }\<close>), with the role of the group the player was pushed to.
  A stored role is a \<open>PlayerRole\<close>, so the test \<open>roles.includes(role)\<close> holds by typing.
\<close>

record QueuedPlayer =
  qp_odId :: string
  qp_mmr :: real
  qp_role :: PlayerRole
  qp_data :: QueueEntry

definition playersByRole :: "(string \<times> QueueEntry) list \<Rightarrow> PlayerRole \<Rightarrow> QueuedPlayer list" where
  "playersByRole docs role =
     map (\<lambda>(docId, data). \<lparr> qp_odId = docId, qp_mmr = qe_mmr data, qp_role = role,
                              qp_data = data \<rparr>)
       (filter (\<lambda>(docId, data). qe_role data = role) docs)"

text \<open>
  \<open>Array.prototype.sort\<close> is stable, and so is \<open>sort_key\<close>: with the comparator
  \<open>a.mmr - b.mmr\<close> the array is sorted by ascending rating, entries of equal rating keeping
  their order. The two first entries exist when the length check of \<open>tryMatchPlayers\<close> has
  passed; the model selects nothing otherwise.
\<close>

definition selectRole :: "(string \<times> QueueEntry) list \<Rightarrow> PlayerRole \<Rightarrow> QueuedPlayer list" where
  "selectRole docs role =
     (let rolePlayers = sort_key qp_mmr (playersByRole docs role)
      in case rolePlayers of
           p0 # p1 # rest \<Rightarrow> [p0 \<lparr> qp_role := role \<rparr>, p1 \<lparr> qp_role := role \<rparr>]
         | _ \<Rightarrow> [])"

text \<open>The rating total of a team: \<open>team.reduce((sum, p) => sum + p.mmr, 0)\<close>.\<close>

definition teamTotal :: "QueuedPlayer list \<Rightarrow> real" where
  "teamTotal team = foldl (\<lambda>sum p. sum + qp_mmr p) 0 team"

text \<open>
  One iteration of the loop over the roles in \<open>balanceTeams\<close>. The comparator \<open>b.mmr - a.mmr\<close>
  sorts by descending rating. With fewer than two players of the role the source pushes
  \<open>undefined\<close> to a team, and the next read of \<open>.mmr\<close> or \<open>.odId\<close> on it raises a TypeError:
  that outcome is \<open>None\<close>.
\<close>

definition balanceRole ::
  "QueuedPlayer list \<Rightarrow> QueuedPlayer list \<times> QueuedPlayer list \<Rightarrow> PlayerRole
     \<Rightarrow> (QueuedPlayer list \<times> QueuedPlayer list) option" where
  "balanceRole players teams role =
     (case teams of (blueTeam, redTeam) \<Rightarrow>
       (case sort_key (\<lambda>p. - qp_mmr p) (filter (\<lambda>p. qp_role p = role) players) of
          p1 # p2 # rest \<Rightarrow>
            (let blueTotal = teamTotal blueTeam;
                 redTotal = teamTotal redTeam
             in if blueTotal \<le> redTotal
                then Some (blueTeam @ [p1], redTeam @ [p2])
                else Some (blueTeam @ [p2], redTeam @ [p1]))
        | _ \<Rightarrow> None))"

fun balanceRoles ::
  "QueuedPlayer list \<Rightarrow> PlayerRole list \<Rightarrow> QueuedPlayer list \<times> QueuedPlayer list
     \<Rightarrow> (QueuedPlayer list \<times> QueuedPlayer list) option" where
  "balanceRoles players [] teams = Some teams"
| "balanceRoles players (role # rest) teams =
     (case balanceRole players teams role of
        None \<Rightarrow> None
      | Some teams' \<Rightarrow> balanceRoles players rest teams')"

definition balanceTeams ::
  "QueuedPlayer list \<Rightarrow> (QueuedPlayer list \<times> QueuedPlayer list) option" where
  "balanceTeams players = balanceRoles players roles ([], [])"

definition createDraftActions :: "DraftAction list" where
  "createDraftActions =
     (let banOrder = [Blue, Red, Blue, Red, Blue, Red];
          pickOrder = [Blue, Red, Red, Blue, Blue, Red, Red, Blue, Blue, Red]
      in map (\<lambda>(i, t). \<lparr> da_phase = i, da_type = Ban, da_team = t, da_championId = None,
                          da_championName = None, da_completedAt = None,
                          da_isActive = (i = 0) \<rparr>) (enumerate 0 banOrder)
         @ map (\<lambda>(i, t). \<lparr> da_phase = 6 + i, da_type = Pick, da_team = t,
                            da_championId = None, da_championName = None,
                            da_completedAt = None, da_isActive = False \<rparr>)
             (enumerate 0 pickOrder))"

definition draftPlayer :: "team \<Rightarrow> QueuedPlayer \<Rightarrow> DraftPlayer" where
  "draftPlayer t p =
     \<lparr> dp_odId = qp_odId p, dp_oduid = qe_oduid (qp_data p),
       dp_displayName = qe_displayName (qp_data p), dp_photoURL = qe_photoURL (qp_data p),
       dp_role = qp_role p, dp_team = t, dp_mmr = qp_mmr p, dp_isReady = False,
       dp_championId = None, dp_championName = None \<rparr>"

text \<open>
  \<open>tryMatchPlayers\<close> returns \<open>{ found: false }\<close> or \<open>{ found: true, draftId }\<close>; \<open>None\<close> is the
  TypeError of \<open>balanceTeams\<close>. The draft document and the deletion of the ten queue
  entries are written by one batch.
\<close>

definition tryMatchPlayers ::
  "Store \<Rightarrow> string \<Rightarrow> timestamp \<Rightarrow> (bool \<times> string option) option \<times> Store" where
  "tryMatchPlayers st draftId now =
     (let queueSnapshot = st_queue st
      in if list_ex (\<lambda>role. length (playersByRole queueSnapshot role) < 2) roles
         then (Some (False, None), st)
         else
           (let selectedPlayers = concat (map (selectRole queueSnapshot) roles)
            in case balanceTeams selectedPlayers of
                 None \<Rightarrow> (None, st)
               | Some (blueTeam, redTeam) \<Rightarrow>
                   (let blueTeamPlayers = map (draftPlayer Blue) blueTeam;
                        redTeamPlayers = map (draftPlayer Red) redTeam;
                        blueTeamAvgMmr = teamTotal blueTeam / 5;
                        redTeamAvgMmr = teamTotal redTeam / 5;
                        actions = createDraftActions;
                        draftData =
                          \<lparr> ds_id = draftId, ds_createdAt = now, ds_status = Waiting,
                            ds_currentPhase = 0, ds_currentTeam = Blue, ds_phaseType = Ban,
                            ds_phaseStartedAt = now, ds_phaseTimeLimit = 30,
                            ds_blueTeam = blueTeamPlayers, ds_redTeam = redTeamPlayers,
                            ds_blueTeamAvgMmr = blueTeamAvgMmr,
                            ds_redTeamAvgMmr = redTeamAvgMmr,
                            ds_actions = actions, ds_bannedChampions = [],
                            ds_fearlessMode = False, ds_lobbyName = None,
                            ds_lobbyPassword = None, ds_cancelReason = None \<rparr>
                    in (Some (True, Some draftId),
                        st \<lparr> st_drafts := (st_drafts st)(draftId \<mapsto> draftData),
                             st_queue :=
                               filter (\<lambda>(docId, data).
                                   docId \<notin> set (map qp_odId selectedPlayers))
                                 queueSnapshot \<rparr>))))"

section \<open>The draft state machine\<close>

text \<open>
  \<open>db.collection('drafts').doc(draftId)\<close> raises on an empty path; inside the \<open>try\<close> of a
  handler that becomes the handler's \<open>internal\<close> error.
\<close>

definition isParticipant :: "DraftPlayer list \<Rightarrow> string \<Rightarrow> bool" where
  "isParticipant teamPlayers userId = list_ex (\<lambda>p. dp_odId p = userId) teamPlayers"

definition markReady :: "string \<Rightarrow> DraftPlayer list \<Rightarrow> DraftPlayer list" where
  "markReady userId teamPlayers =
     map (\<lambda>p. if dp_odId p = userId then p \<lparr> dp_isReady := True \<rparr> else p) teamPlayers"

text \<open>\<open>setDraftReady\<close> returns \<open>allReady\<close>.\<close>

definition setDraftReady ::
  "Store \<Rightarrow> string option \<Rightarrow> string \<Rightarrow> timestamp \<Rightarrow> (HttpsError + bool) \<times> Store" where
  "setDraftReady st auth draftId now =
     (case auth of
        None \<Rightarrow> (Inl (HttpsError unauthenticated ''User must be authenticated''), st)
      | Some userId \<Rightarrow>
          if draftId = [] then (Inl (HttpsError internal ''Failed to set ready''), st)
          else
            (case st_drafts st draftId of
               None \<Rightarrow> (Inl (HttpsError not_found ''Draft not found''), st)
             | Some draftData \<Rightarrow>
                 if ds_status draftData \<noteq> Waiting
                 then (Inl (HttpsError failed_precondition ''Draft is not in waiting state''), st)
                 else
                   (let found = (isParticipant (ds_blueTeam draftData) userId
                                 \<or> isParticipant (ds_redTeam draftData) userId);
                        blueTeam = markReady userId (ds_blueTeam draftData);
                        redTeam = markReady userId (ds_redTeam draftData)
                    in if \<not> found
                       then (Inl (HttpsError permission_denied
                                    ''Not a participant in this draft''), st)
                       else
                         (let allReady = list_all dp_isReady (blueTeam @ redTeam);
                              updated = draftData \<lparr> ds_blueTeam := blueTeam,
                                                     ds_redTeam := redTeam \<rparr>;
                              updated' =
                                (if allReady
                                 then updated \<lparr> ds_status := Banning,
                                                 ds_phaseStartedAt := now \<rparr>
                                 else updated)
                          in (Inr allReady,
                              st \<lparr> st_drafts := (st_drafts st)(draftId \<mapsto> updated') \<rparr>)))))"

record DraftActionData =
  ad_draftId :: string
  ad_championId :: string
  ad_championName :: string

text \<open>A JavaScript string is truthy when it is present and not empty.\<close>

definition truthy :: "string option \<Rightarrow> bool" where
  "truthy s = (case s of None \<Rightarrow> False | Some v \<Rightarrow> v \<noteq> [])"

definition pickedChampions :: "DraftAction list \<Rightarrow> string list" where
  "pickedChampions actions =
     List.map_filter da_championId
       (filter (\<lambda>a. da_type a = Pick \<and> truthy (da_championId a)) actions)"

text \<open>
  The pick goes to the first player of the team without a champion
  (\<open>teamPlayers.find(p => !p.championId)\<close>); without such a player the team is unchanged.
\<close>

fun assignPick :: "string \<Rightarrow> string \<Rightarrow> DraftPlayer list \<Rightarrow> DraftPlayer list" where
  "assignPick championId championName [] = []"
| "assignPick championId championName (p # ps) =
     (if \<not> truthy (dp_championId p)
      then p \<lparr> dp_championId := Some championId, dp_championName := Some championName \<rparr> # ps
      else p # assignPick championId championName ps)"

text \<open>\<open>FieldValue.arrayUnion\<close> appends an element that the array does not hold yet.\<close>

definition arrayUnion :: "'a list \<Rightarrow> 'a \<Rightarrow> 'a list" where
  "arrayUnion xs x = (if x \<in> set xs then xs else xs @ [x])"

text \<open>
  The callback that \<open>makeDraftAction\<close> runs in a transaction on the draft document: either
  it throws, or it returns \<open>{ nextPhase, completed }\<close> together with the updated document.
\<close>

definition draftActionTransaction ::
  "DraftSession \<Rightarrow> string \<Rightarrow> DraftActionData \<Rightarrow> timestamp \<Rightarrow> string
     \<Rightarrow> HttpsError + ((nat option \<times> bool) \<times> DraftSession)" where
  "draftActionTransaction draftData userId req now password =
     (if ds_status draftData \<notin> {Banning, Picking}
      then Inl (HttpsError failed_precondition ''Draft is not in active phase'')
      else
        (let currentPhase = ds_currentPhase draftData;
             actions = ds_actions draftData
         in if \<not> currentPhase < length actions
            then Inl (HttpsError failed_precondition ''No active action'')
            else
              (let currentAction = actions ! currentPhase
               in if \<not> da_isActive currentAction
                  then Inl (HttpsError failed_precondition ''No active action'')
                  else
                    (let playerTeam =
                           (if isParticipant (ds_blueTeam draftData) userId then Some Blue
                            else if isParticipant (ds_redTeam draftData) userId then Some Red
                            else None)
                     in if playerTeam = None
                        then Inl (HttpsError permission_denied
                                    ''Not a participant in this draft'')
                        else if Some (da_team currentAction) \<noteq> playerTeam
                        then Inl (HttpsError permission_denied ''Not your team's turn'')
                        else if ad_championId req \<in> set (ds_bannedChampions draftData)
                                \<or> ad_championId req \<in> set (pickedChampions actions)
                        then Inl (HttpsError invalid_argument
                                    ''Champion already banned or picked'')
                        else
                          (let actions1 = actions [currentPhase :=
                                 currentAction \<lparr> da_championId := Some (ad_championId req),
                                   da_championName := Some (ad_championName req),
                                   da_completedAt := Some now, da_isActive := False \<rparr>];
                               upd1 =
                                 (if da_type currentAction = Ban
                                  then draftData \<lparr> ds_bannedChampions :=
                                         arrayUnion (ds_bannedChampions draftData)
                                           (ad_championId req) \<rparr>
                                  else draftData);
                               upd2 =
                                 (if da_type currentAction = Pick
                                  then (if da_team currentAction = Blue
                                        then upd1 \<lparr> ds_blueTeam :=
                                               assignPick (ad_championId req)
                                                 (ad_championName req) (ds_blueTeam draftData) \<rparr>
                                        else upd1 \<lparr> ds_redTeam :=
                                               assignPick (ad_championId req)
                                                 (ad_championName req) (ds_redTeam draftData) \<rparr>)
                                  else upd1);
                               nextPhase = currentPhase + 1
                           in if nextPhase \<ge> length actions1
                              then Inr ((None, True),
                                     upd2 \<lparr> ds_actions := actions1, ds_status := Completed,
                                       ds_currentPhase := currentPhase,
                                       ds_lobbyName :=
                                         Some (''Drafty-'' @ take 8 (ad_draftId req)),
                                       ds_lobbyPassword := Some password \<rparr>)
                              else
                                (let actions2 = actions1 [nextPhase :=
                                       (actions1 ! nextPhase) \<lparr> da_isActive := True \<rparr>];
                                     upd3 = upd2 \<lparr> ds_actions := actions2,
                                       ds_currentPhase := nextPhase,
                                       ds_currentTeam := da_team (actions2 ! nextPhase),
                                       ds_phaseType := da_type (actions2 ! nextPhase),
                                       ds_phaseStartedAt := now \<rparr>;
                                     upd4 =
                                       (if da_type (actions2 ! nextPhase) = Pick
                                           \<and> ds_status draftData = Banning
                                        then upd3 \<lparr> ds_status := Picking \<rparr>
                                        else upd3)
                                 in Inr ((Some nextPhase, False), upd4)))))))"

definition makeDraftAction ::
  "Store \<Rightarrow> string option \<Rightarrow> DraftActionData \<Rightarrow> timestamp \<Rightarrow> string
     \<Rightarrow> (HttpsError + (nat option \<times> bool)) \<times> Store" where
  "makeDraftAction st auth req now password =
     (case auth of
        None \<Rightarrow> (Inl (HttpsError unauthenticated ''User must be authenticated''), st)
      | Some userId \<Rightarrow>
          if ad_draftId req = [] \<or> ad_championId req = [] \<or> ad_championName req = []
          then (Inl (HttpsError invalid_argument ''Missing required fields''), st)
          else
            (case st_drafts st (ad_draftId req) of
               None \<Rightarrow> (Inl (HttpsError not_found ''Draft not found''), st)
             | Some draftData \<Rightarrow>
                 (case draftActionTransaction draftData userId req now password of
                    Inl e \<Rightarrow> (Inl e, st)
                  | Inr (result, updated) \<Rightarrow>
                      (Inr result,
                       st \<lparr> st_drafts := (st_drafts st)(ad_draftId req \<mapsto> updated) \<rparr>))))"

text \<open>\<open>timeoutDraftAction\<close> returns \<open>{ success: true }\<close>, here the unit value.\<close>

definition timeoutDraftAction ::
  "Store \<Rightarrow> string option \<Rightarrow> string \<Rightarrow> (HttpsError + unit) \<times> Store" where
  "timeoutDraftAction st auth draftId =
     (case auth of
        None \<Rightarrow> (Inl (HttpsError unauthenticated ''User must be authenticated''), st)
      | Some userId \<Rightarrow>
          if draftId = [] then (Inl (HttpsError internal ''Failed to timeout draft''), st)
          else
            (case st_drafts st draftId of
               None \<Rightarrow> (Inl (HttpsError not_found ''Draft not found''), st)
             | Some draftData \<Rightarrow>
                 if \<not> (isParticipant (ds_blueTeam draftData) userId
                        \<or> isParticipant (ds_redTeam draftData) userId)
                 then (Inl (HttpsError permission_denied ''Not a participant''), st)
                 else
                   (Inr (),
                    st \<lparr> st_drafts := (st_drafts st)(draftId \<mapsto>
                           draftData \<lparr> ds_status := Cancelled,
                                       ds_cancelReason := Some ''timeout'' \<rparr>) \<rparr>)))"

text \<open>
  The transitions of a draft session, and the stores that the handlers can produce. The
  \<open>drafts\<close> collection is empty at first; \<open>tryMatchPlayers\<close> creates a session under a fresh
  document id; the other handlers of the source (queue, ratings, matches) do not write it.
\<close>

inductive transition :: "Store \<Rightarrow> Store \<Rightarrow> bool" where
  ready: "transition st (snd (setDraftReady st auth draftId now))"
| submitAction: "transition st (snd (makeDraftAction st auth req now password))"
| timeout: "transition st (snd (timeoutDraftAction st auth draftId))"

inductive reachable :: "Store \<Rightarrow> bool" where
  initial: "st_drafts st = Map.empty \<Longrightarrow> reachable st"
| other: "reachable st \<Longrightarrow> st_drafts st' = st_drafts st \<Longrightarrow> reachable st'"
| created: "reachable st \<Longrightarrow> st_drafts st draftId = None
     \<Longrightarrow> reachable (snd (tryMatchPlayers st draftId now))"
| moved: "reachable st \<Longrightarrow> transition st st' \<Longrightarrow> reachable st'"

section \<open>Submitting a match result\<close>

definition RANK_TO_MMR :: "string \<rightharpoonup> real" where
  "RANK_TO_MMR = map_of
     [(''IRON'', 400), (''BRONZE'', 600), (''SILVER'', 800), (''GOLD'', 1000),
      (''PLATINUM'', 1200), (''EMERALD'', 1400), (''DIAMOND'', 1600), (''MASTER'', 1800),
      (''GRANDMASTER'', 2000), (''CHALLENGER'', 2200), (''UNRANKED'', 800)]"

text \<open>\<open>MMR_RANK_THRESHOLDS\<close>; the upper bound \<open>Infinity\<close> of the last band is \<open>None\<close>.\<close>

definition MMR_RANK_THRESHOLDS :: "(real \<times> real option \<times> string) list" where
  "MMR_RANK_THRESHOLDS =
     [(0, Some 499, ''IRON''), (500, Some 699, ''BRONZE''), (700, Some 899, ''SILVER''),
      (900, Some 1099, ''GOLD''), (1100, Some 1299, ''PLATINUM''),
      (1300, Some 1499, ''EMERALD''), (1500, Some 1699, ''DIAMOND''),
      (1700, Some 1899, ''MASTER''), (1900, Some 2099, ''GRANDMASTER''),
      (2100, None, ''CHALLENGER'')]"

text \<open>\<open>Array.prototype.indexOf\<close>: the first index of the element, or -1.\<close>

fun indexOf :: "'a list \<Rightarrow> 'a \<Rightarrow> int" where
  "indexOf [] x = - 1"
| "indexOf (y # ys) x =
     (if x = y then 0 else (let i = indexOf ys x in if i = - 1 then - 1 else i + 1))"

text \<open>\<open>String.prototype.toUpperCase\<close>, on the ASCII letters.\<close>

definition toUpperCase :: "string \<Rightarrow> string" where
  "toUpperCase s =
     map (\<lambda>c. let n = (of_char c :: nat) in if 97 \<le> n \<and> n \<le> 122 then char_of (n - 32) else c) s"

definition rankOrder :: "string list" where
  "rankOrder = [''IRON'', ''BRONZE'', ''SILVER'', ''GOLD'', ''PLATINUM'', ''EMERALD'',
     ''DIAMOND'', ''MASTER'', ''GRANDMASTER'', ''CHALLENGER'']"

text \<open>A JavaScript number is falsy when it is 0: \<open>x || d\<close> is \<open>d\<close> then.\<close>

definition orElse :: "real \<Rightarrow> real \<Rightarrow> real" where
  "orElse x d = (if x = 0 then d else x)"

definition getInitialMMR :: "string list \<Rightarrow> real" where
  "getInitialMMR riotRanks =
     (if length riotRanks = 0 then 800
      else
        (let highestRankIndex =
               foldl (\<lambda>highest tier.
                   let index = indexOf rankOrder (toUpperCase tier)
                   in if index > highest then index else highest)
                 (- 1) riotRanks
         in if highestRankIndex = - 1 then 800
            else (case RANK_TO_MMR (rankOrder ! nat highestRankIndex) of
                    None \<Rightarrow> 800
                  | Some v \<Rightarrow> orElse v 800)))"

definition getRankFromMMR :: "real \<Rightarrow> string" where
  "getRankFromMMR mmr =
     (case find (\<lambda>(mn, mx, rank). mmr \<ge> mn \<and> (case mx of None \<Rightarrow> True | Some m \<Rightarrow> mmr \<le> m))
             MMR_RANK_THRESHOLDS of
        Some (mn, mx, rank) \<Rightarrow> rank
      | None \<Rightarrow> ''IRON'')"

record PlayerStatsInput =
  si_champion :: string
  si_kills :: real
  si_deaths :: real
  si_assists :: real
  si_cs :: real
  si_damage :: real
  si_visionScore :: real
  si_objectiveScore :: real

record TeamPlayerInput =
  tp_odId :: string
  tp_oduid :: string
  tp_displayName :: string
  tp_role :: string
  tp_stats :: PlayerStatsInput

text \<open>A field of the request that is missing (falsy) is \<open>None\<close>.\<close>

record SubmitMatchResultData =
  sm_winner :: "team option"
  sm_blueTeam :: "TeamPlayerInput list option"
  sm_redTeam :: "TeamPlayerInput list option"

text \<open>
  The entries \<open>playerMmrMap[odId]\<close> and \<open>playerPlacementMap[odId]\<close> that the first loop of
  \<open>submitMatchResult\<close> writes for a player: they depend on the stored documents of that
  player only, so the two maps are functions of the store and the player id.
\<close>

definition userRanks :: "Store \<Rightarrow> string \<Rightarrow> string list" where
  "userRanks st odId =
     (case st_users st odId of
        None \<Rightarrow> []
      | Some userData \<Rightarrow>
          List.map_filter ra_rankTier
            (filter (\<lambda>acc. truthy (ra_rankTier acc)) (ud_riotAccounts userData)))"

definition playerMmrMap :: "Store \<Rightarrow> string \<Rightarrow> real" where
  "playerMmrMap st odId =
     (case st_mmr st odId of
        None \<Rightarrow> getInitialMMR (userRanks st odId)
      | Some mmrData \<Rightarrow> orElse (md_mmr mmrData) 800)"

definition playerPlacementMap :: "Store \<Rightarrow> string \<Rightarrow> bool" where
  "playerPlacementMap st odId =
     (case st_mmr st odId of
        None \<Rightarrow> False
      | Some mmrData \<Rightarrow> md_placementGamesPlayed mmrData \<ge> PLACEMENT_GAMES MMR_CONFIG)"

definition toPlayerStats :: "Store \<Rightarrow> team \<Rightarrow> TeamPlayerInput \<Rightarrow> PlayerStats" where
  "toPlayerStats st t p =
     \<lparr> ps_odId = tp_odId p, ps_team = t, ps_kills = si_kills (tp_stats p),
       ps_deaths = si_deaths (tp_stats p), ps_assists = si_assists (tp_stats p),
       ps_cs = si_cs (tp_stats p), ps_damage = si_damage (tp_stats p),
       ps_visionScore = si_visionScore (tp_stats p),
       ps_objectiveScore = si_objectiveScore (tp_stats p),
       ps_mmrAtTime = playerMmrMap st (tp_odId p) \<rparr>"

definition toMatchPlayer :: "Store \<Rightarrow> TeamPlayerInput \<Rightarrow> MatchPlayer" where
  "toMatchPlayer st p =
     \<lparr> mp_odId = tp_odId p, mp_oduid = tp_oduid p, mp_displayName = tp_displayName p,
       mp_role = tp_role p, mp_mmrAtTime = playerMmrMap st (tp_odId p) \<rparr>"

text \<open>
  \<open>mmrChanges\<close> is an object keyed by player id, holding change, performance score and new
  rating. It is an association list in insertion order: writing an existing key replaces
  its value in place, a new key is appended.
\<close>

fun assign :: "('k \<times> 'v) list \<Rightarrow> 'k \<Rightarrow> 'v \<Rightarrow> ('k \<times> 'v) list" where
  "assign [] k v = [(k, v)]"
| "assign ((k', v') # kvs) k v = (if k' = k then (k, v) # kvs else (k', v') # assign kvs k v)"

text \<open>
  The loop over \<open>allPlayerStats\<close> that fills \<open>mmrChanges\<close> and \<open>playerMatchStats\<close>. A rating
  change that is not a number, and the TypeError of reading a property of \<open>undefined\<close>
  (\<open>find\<close> without a result), are \<open>None\<close>.
\<close>

fun calculateChanges ::
  "Store \<Rightarrow> MatchContext \<Rightarrow> TeamPlayerInput list \<Rightarrow> PlayerStats list
     \<Rightarrow> (string \<times> real \<times> real \<times> real) list \<times> PlayerMatchStats list
     \<Rightarrow> ((string \<times> real \<times> real \<times> real) list \<times> PlayerMatchStats list) option" where
  "calculateChanges st matchContext allPlayers [] acc = Some acc"
| "calculateChanges st matchContext allPlayers (playerStats # rest) acc =
     (case acc of (mmrChanges, playerMatchStats) \<Rightarrow>
       (let isPlacement = \<not> playerPlacementMap st (ps_odId playerStats)
        in case calculateMMRChange playerStats matchContext isPlacement of
             None \<Rightarrow> None
           | Some (change, performanceScore, breakdown) \<Rightarrow>
               (let currentMmr = playerMmrMap st (ps_odId playerStats);
                    newMmr = applyMMRChange currentMmr change
                in case find (\<lambda>p. tp_odId p = ps_odId playerStats) allPlayers of
                     None \<Rightarrow> None
                   | Some playerData \<Rightarrow>
                       calculateChanges st matchContext allPlayers rest
                         (assign mmrChanges (ps_odId playerStats)
                            (change, performanceScore, newMmr),
                          playerMatchStats @
                            [\<lparr> pm_odId = ps_odId playerStats, pm_oduid = tp_oduid playerData,
                               pm_team = ps_team playerStats,
                               pm_champion = si_champion (tp_stats playerData),
                               pm_role = tp_role playerData,
                               pm_kills = ps_kills playerStats,
                               pm_deaths = ps_deaths playerStats,
                               pm_assists = ps_assists playerStats,
                               pm_cs = ps_cs playerStats, pm_damage = ps_damage playerStats,
                               pm_visionScore = ps_visionScore playerStats,
                               pm_objectiveScore = ps_objectiveScore playerStats,
                               pm_performanceScore = performanceScore,
                               pm_mmrChange = change \<rparr>]))))"

text \<open>
  One write of the batch on the \<open>mmr\<close> collection, for one player: an update of the listed
  fields when the player's document existed when it was read, a new document otherwise.
  The values come from the documents read at the start of the handler. An update of a
  document that the collection does not hold fails, and with it the batch: \<open>None\<close>.
\<close>

definition mmrWrite ::
  "Store \<Rightarrow> team \<Rightarrow> TeamPlayerInput list \<Rightarrow> TeamPlayerInput list
     \<Rightarrow> (string \<times> real \<times> real \<times> real) list \<Rightarrow> string \<Rightarrow> timestamp
     \<Rightarrow> (string \<rightharpoonup> MmrDoc) \<Rightarrow> TeamPlayerInput \<Rightarrow> (string \<rightharpoonup> MmrDoc) option" where
  "mmrWrite st winner blueTeam redTeam mmrChanges matchId now docs player =
     (let currentMmr = playerMmrMap st (tp_odId player)
      in case map_of mmrChanges (tp_odId player) of
           None \<Rightarrow> None
         | Some (change, performanceScore, newMmr) \<Rightarrow>
             (let didWin =
                    (list_ex (\<lambda>p. tp_odId p = tp_odId player) blueTeam \<and> winner = Blue
                     \<or> list_ex (\<lambda>p. tp_odId p = tp_odId player) redTeam \<and> winner = Red);
                  historyEntry =
                    \<lparr> he_matchId = matchId, he_mmrBefore = currentMmr, he_mmrAfter = newMmr,
                      he_change = change, he_performanceScore = performanceScore,
                      he_timestamp = now \<rparr>
              in case st_mmr st (tp_odId player) of
                   Some existingData \<Rightarrow>
                     (let currentGamesPlayed = md_gamesPlayed existingData;
                          currentPlacementGames = md_placementGamesPlayed existingData;
                          currentWins = md_wins existingData;
                          currentLosses = md_losses existingData;
                          currentPeakMmr = orElse (md_peakMmr existingData) currentMmr
                      in case docs (tp_odId player) of
                           None \<Rightarrow> None
                         | Some stored \<Rightarrow>
                             Some (docs(tp_odId player \<mapsto> stored
                               \<lparr> md_mmr := newMmr,
                                 md_gamesPlayed := currentGamesPlayed + 1,
                                 md_placementGamesPlayed :=
                                   min (currentPlacementGames + 1) (PLACEMENT_GAMES MMR_CONFIG),
                                 md_isPlaced :=
                                   (currentPlacementGames + 1 \<ge> PLACEMENT_GAMES MMR_CONFIG),
                                 md_wins := (if didWin then currentWins + 1 else currentWins),
                                 md_losses :=
                                   (if didWin then currentLosses else currentLosses + 1),
                                 md_peakMmr := max currentPeakMmr newMmr,
                                 md_lastUpdated := now,
                                 md_history := arrayUnion (md_history stored) historyEntry \<rparr>)))
                 | None \<Rightarrow>
                     Some (docs(tp_odId player \<mapsto>
                       \<lparr> md_odId = tp_odId player, md_mmr = newMmr, md_gamesPlayed = 1,
                         md_placementGamesPlayed = 1,
                         md_isPlaced = (1 \<ge> PLACEMENT_GAMES MMR_CONFIG),
                         md_wins = (if didWin then 1 else 0),
                         md_losses = (if didWin then 0 else 1),
                         md_peakMmr = newMmr, md_lastUpdated = now,
                         md_history = [historyEntry] \<rparr>))))"

fun commitWrites ::
  "((string \<rightharpoonup> MmrDoc) \<Rightarrow> TeamPlayerInput \<Rightarrow> (string \<rightharpoonup> MmrDoc) option)
     \<Rightarrow> TeamPlayerInput list \<Rightarrow> (string \<rightharpoonup> MmrDoc) \<Rightarrow> (string \<rightharpoonup> MmrDoc) option" where
  "commitWrites write [] docs = Some docs"
| "commitWrites write (player # rest) docs =
     (case write docs player of
        None \<Rightarrow> None
      | Some docs' \<Rightarrow> commitWrites write rest docs')"

text \<open>
  \<open>submitMatchResult\<close>. The handler draws a fresh id for the match document and reads the
  clock; it writes twice: \<open>await matchRef.set(...)\<close> stores the match document, and then
  \<open>await batch.commit()\<close> applies the rating writes of all players at once. Either write
  can be rejected by the store; \<open>setOk\<close> and \<open>commitOk\<close> say whether it goes through. Every
  exception that is not an \<open>HttpsError\<close> is caught and rethrown as \<open>internal\<close>. The handler
  returns the match id and, for each player, change, performance score, new rating and
  rank, in the order of the keys of \<open>mmrChanges\<close>.
\<close>

definition submitMatchResult ::
  "Store \<Rightarrow> string option \<Rightarrow> SubmitMatchResultData \<Rightarrow> string \<Rightarrow> timestamp \<Rightarrow> bool \<Rightarrow> bool
     \<Rightarrow> (HttpsError + string \<times> (string \<times> real \<times> real \<times> real \<times> string) list) \<times> Store" where
  "submitMatchResult st auth req matchId now setOk commitOk =
     (case auth of
        None \<Rightarrow> (Inl (HttpsError unauthenticated ''User must be authenticated''), st)
      | Some uid \<Rightarrow>
        (case (sm_winner req, sm_blueTeam req, sm_redTeam req) of
           (Some winner, Some blueTeam, Some redTeam) \<Rightarrow>
             if length blueTeam \<noteq> 5 \<or> length redTeam \<noteq> 5
             then (Inl (HttpsError invalid_argument ''Each team must have exactly 5 players''),
                   st)
             else
               (let allPlayers = blueTeam @ redTeam;
                    blueTeamMmrs = map (\<lambda>p. playerMmrMap st (tp_odId p)) blueTeam;
                    redTeamMmrs = map (\<lambda>p. playerMmrMap st (tp_odId p)) redTeam;
                    blueTeamAvgMmr = foldl (\<lambda>a b. a + b) 0 blueTeamMmrs / 5;
                    redTeamAvgMmr = foldl (\<lambda>a b. a + b) 0 redTeamMmrs / 5;
                    allPlayerStats =
                      map (toPlayerStats st Blue) blueTeam @ map (toPlayerStats st Red) redTeam;
                    matchContext =
                      \<lparr> mc_winner = winner, mc_blueTeamAvgMmr = blueTeamAvgMmr,
                        mc_redTeamAvgMmr = redTeamAvgMmr,
                        mc_allPlayerStats = allPlayerStats \<rparr>
                in case calculateChanges st matchContext allPlayers allPlayerStats ([], []) of
                     None \<Rightarrow> (Inl (HttpsError internal ''Failed to submit match result''), st)
                   | Some (mmrChanges, playerMatchStats) \<Rightarrow>
                       if \<not> setOk
                       then (Inl (HttpsError internal ''Failed to submit match result''), st)
                       else
                         (let matchDoc =
                                \<lparr> m_id = matchId, m_createdAt = now, m_createdBy = uid,
                                  m_status = ''completed'',
                                  m_blueTeam =
                                    \<lparr> mt_players = map (toMatchPlayer st) blueTeam,
                                      mt_avgMmr = blueTeamAvgMmr \<rparr>,
                                  m_redTeam =
                                    \<lparr> mt_players = map (toMatchPlayer st) redTeam,
                                      mt_avgMmr = redTeamAvgMmr \<rparr>,
                                  m_winner = winner, m_playerStats = playerMatchStats,
                                  m_mmrProcessed = True \<rparr>;
                              st1 = st \<lparr> st_matches := (st_matches st)(matchId \<mapsto> matchDoc) \<rparr>
                          in case (if commitOk
                                   then commitWrites
                                          (mmrWrite st winner blueTeam redTeam mmrChanges
                                             matchId now)
                                          allPlayers (st_mmr st1)
                                   else None) of
                               None \<Rightarrow>
                                 (Inl (HttpsError internal ''Failed to submit match result''),
                                  st1)
                             | Some docs \<Rightarrow>
                                 (Inr (matchId,
                                       map (\<lambda>(odId, change, performanceScore, newMmr).
                                              (odId, change, performanceScore, newMmr,
                                               getRankFromMMR newMmr))
                                         mmrChanges),
                                  st1 \<lparr> st_mmr := docs \<rparr>)))
         | _ \<Rightarrow> (Inl (HttpsError invalid_argument ''Missing required match data''), st)))"

section \<open>Invariants and measures used in the statements\<close>



text \<open>
  The rating gap of the pair of a role, and the largest gap over the five roles.
\<close>

definition roleGap :: "QueuedPlayer list \<Rightarrow> PlayerRole \<Rightarrow> real" where
  "roleGap players role =
     (case sort_key (\<lambda>p. - qp_mmr p) (filter (\<lambda>p. qp_role p = role) players) of
        p1 # p2 # rest \<Rightarrow> qp_mmr p1 - qp_mmr p2
      | _ \<Rightarrow> 0)"

definition largestRoleGap :: "QueuedPlayer list \<Rightarrow> real" where
  "largestRoleGap players = Max (set (map (roleGap players) roles))"

text \<open>
  The greedy choice at position \<open>n\<close> of the two teams: the two players of the role are placed
  there, the higher-rated one on the team whose total over the earlier positions is lower,
  on the blue team when the totals are equal.
\<close>

definition greedy_at :: "QueuedPlayer list \<Rightarrow> QueuedPlayer list \<Rightarrow> QueuedPlayer list \<Rightarrow> nat \<Rightarrow> PlayerRole \<Rightarrow> bool" where
  "greedy_at players B R n role \<longleftrightarrow>
     set [B ! n, R ! n] = set (filter (\<lambda>p. qp_role p = role) players)
     \<and> (if teamTotal (take n B) \<le> teamTotal (take n R)
        then qp_mmr (R ! n) \<le> qp_mmr (B ! n) else qp_mmr (B ! n) \<le> qp_mmr (R ! n))"

text \<open>
  A queue document as a queued player, and the order of two players in the snapshot.
\<close>

definition asQueuedPlayer :: "string \<times> QueueEntry \<Rightarrow> QueuedPlayer" where
  "asQueuedPlayer doc = \<lparr> qp_odId = fst doc, qp_mmr = qe_mmr (snd doc),
     qp_role = qe_role (snd doc), qp_data = snd doc \<rparr>"


text \<open>
  \<open>x <= y\<close> on numbers, false whenever an argument is \<open>NaN\<close>; the embedding of a real-valued
  breakdown; and the inputs on which no sum of a statistic and neither KDA ratio leaves
  the range of the doubles.
\<close>

fun js_le :: "number \<Rightarrow> number \<Rightarrow> bool" where
  "js_le (Finite x) (Finite y) = (x \<le> y)"
| "js_le NaN y = False"
| "js_le x NaN = False"
| "js_le NegInfinity y = True"
| "js_le x Infinity = True"
| "js_le x y = False"

definition breakdown_ext :: "PerformanceBreakdown \<Rightarrow> PerformanceBreakdown_ext" where
  "breakdown_ext b = \<lparr> pbx_kdaScore = Finite (pb_kdaScore b),
     pbx_damageScore = Finite (pb_damageScore b), pbx_csScore = Finite (pb_csScore b),
     pbx_visionScore = Finite (pb_visionScore b),
     pbx_objectiveScore = Finite (pb_objectiveScore b),
     pbx_totalScore = Finite (pb_totalScore b), pbx_multiplier = Finite (pb_multiplier b) \<rparr>"

definition kda_in_range :: "real \<Rightarrow> real \<Rightarrow> real \<Rightarrow> bool" where
  "kda_in_range k d a \<longleftrightarrow>
     \<bar>k + a\<bar> < overflow_bound
     \<and> (if d = 0 then \<bar>(k + a) * 2\<bar> < overflow_bound else \<bar>(k + a) / d\<bar> < overflow_bound)"

definition no_overflow :: "PlayerStats \<Rightarrow> PlayerStats list \<Rightarrow> bool" where
  "no_overflow p allStats \<longleftrightarrow>
     list_all (\<lambda>f. \<bar>f p\<bar> < overflow_bound
                  \<and> sum_list (map (\<lambda>s. \<bar>f s\<bar>) allStats) < overflow_bound)
       [ps_kills, ps_deaths, ps_assists, ps_damage, ps_cs, ps_visionScore, ps_objectiveScore]
     \<and> kda_in_range (ps_kills p) (ps_deaths p) (ps_assists p)
     \<and> (case (average (map ps_kills allStats), average (map ps_deaths allStats),
               average (map ps_assists allStats)) of
          (Some k, Some d, Some a) \<Rightarrow> kda_in_range k d a
        | _ \<Rightarrow> False)"

section \<open>Example inputs\<close>

text \<open>
  A match in which all ten players have the same statistics, so that everyone performs
  exactly averagely, with both teams averaging 1000 and every player rated 1000.
\<close>

definition c2_stats :: "string \<Rightarrow> team \<Rightarrow> PlayerStats" where
  "c2_stats i t = \<lparr> ps_odId = i, ps_team = t, ps_kills = 5, ps_deaths = 4, ps_assists = 7,
     ps_cs = 180, ps_damage = 20000, ps_visionScore = 30, ps_objectiveScore = 12,
     ps_mmrAtTime = 1000 \<rparr>"

definition c2_context :: MatchContext where
  "c2_context = \<lparr> mc_winner = Blue, mc_blueTeamAvgMmr = 1000, mc_redTeamAvgMmr = 1000,
     mc_allPlayerStats =
       [c2_stats ''b1'' Blue, c2_stats ''b2'' Blue, c2_stats ''b3'' Blue, c2_stats ''b4'' Blue,
        c2_stats ''b5'' Blue, c2_stats ''r1'' Red, c2_stats ''r2'' Red, c2_stats ''r3'' Red,
        c2_stats ''r4'' Red, c2_stats ''r5'' Red] \<rparr>"

definition c2_breakdown :: PerformanceBreakdown where
  "c2_breakdown = \<lparr> pb_kdaScore = 50, pb_damageScore = 50, pb_csScore = 50, pb_visionScore = 50,
     pb_objectiveScore = 50, pb_totalScore = 50, pb_multiplier = 1 \<rparr>"

text \<open>
  The same match, except that two players report \<open>1e308\<close> kills and \<open>1e308\<close> deaths, and
  the breakdown every player of that match gets.
\<close>

definition c10_huge :: real where
  "c10_huge = 10 ^ 308"

definition c10_overflow :: "string \<Rightarrow> team \<Rightarrow> PlayerStats" where
  "c10_overflow i t = \<lparr> ps_odId = i, ps_team = t, ps_kills = c10_huge, ps_deaths = c10_huge,
     ps_assists = 7, ps_cs = 180, ps_damage = 20000, ps_visionScore = 30,
     ps_objectiveScore = 12, ps_mmrAtTime = 1000 \<rparr>"

definition c10_allStats :: "PlayerStats list" where
  "c10_allStats =
     [c10_overflow ''b1'' Blue, c10_overflow ''b2'' Blue, c2_stats ''b3'' Blue,
      c2_stats ''b4'' Blue, c2_stats ''b5'' Blue, c2_stats ''r1'' Red, c2_stats ''r2'' Red,
      c2_stats ''r3'' Red, c2_stats ''r4'' Red, c2_stats ''r5'' Red]"

definition c10_breakdown :: PerformanceBreakdown_ext where
  "c10_breakdown = \<lparr> pbx_kdaScore = NaN, pbx_damageScore = Finite 50,
     pbx_csScore = Finite 50, pbx_visionScore = Finite 50, pbx_objectiveScore = Finite 50,
     pbx_totalScore = NaN, pbx_multiplier = NaN \<rparr>"

text \<open>
  A queue of ten players, two per role, in the order top, top, jungle, jungle, mid, mid,
  adc, adc, support, support; the match formed from it; the session after all ten players
  are ready; and the session after sixteen valid submissions.
\<close>

definition c_entry :: "string \<Rightarrow> PlayerRole \<Rightarrow> real \<Rightarrow> timestamp \<Rightarrow> string \<times> QueueEntry" where
  "c_entry i r m j = (i, \<lparr> qe_odId = i, qe_oduid = i, qe_displayName = i, qe_photoURL = None,
     qe_role = r, qe_mmr = m, qe_region = ''euw1'', qe_joinedAt = j \<rparr>)"

definition c_queue :: "(string \<times> QueueEntry) list" where
  "c_queue = [c_entry ''p01'' Top 1200 1, c_entry ''p02'' Top 1000 2,
     c_entry ''p03'' Jungle 900 3, c_entry ''p04'' Jungle 1100 4,
     c_entry ''p05'' Mid 1500 5, c_entry ''p06'' Mid 1400 6,
     c_entry ''p07'' Adc 800 7, c_entry ''p08'' Adc 800 8,
     c_entry ''p09'' Support 1000 9, c_entry ''p10'' Support 1300 10]"

definition c_store :: Store where
  "c_store = \<lparr> st_queue = c_queue, st_drafts = Map.empty, st_mmr = Map.empty,
     st_users = Map.empty, st_matches = Map.empty \<rparr>"

definition c_waiting :: Store where
  "c_waiting = snd (tryMatchPlayers c_store ''draft0001'' 100)"

definition c_players :: "string list" where
  "c_players = [''p01'', ''p02'', ''p03'', ''p04'', ''p05'', ''p06'', ''p07'', ''p08'',
     ''p09'', ''p10'']"

definition c_banning :: Store where
  "c_banning =
     foldl (\<lambda>st u. snd (setDraftReady st (Some u) ''draft0001'' 101)) c_waiting c_players"

definition c_request :: "string \<Rightarrow> DraftActionData" where
  "c_request c = \<lparr> ad_draftId = ''draft0001'', ad_championId = c, ad_championName = c \<rparr>"

definition c_submissions :: "(string \<times> string) list" where
  "c_submissions =
     [(''p01'', ''Aatrox''), (''p02'', ''Ahri''), (''p01'', ''Akali''), (''p02'', ''Ashe''),
      (''p01'', ''Bard''), (''p02'', ''Braum''), (''p01'', ''Camille''), (''p02'', ''Darius''),
      (''p02'', ''Diana''), (''p01'', ''Ekko''), (''p01'', ''Fizz''), (''p02'', ''Garen''),
      (''p02'', ''Jinx''), (''p01'', ''Karma''), (''p01'', ''Leona''), (''p02'', ''Lux'')]"

definition c_completed :: Store where
  "c_completed =
     foldl (\<lambda>st (u, c). snd (makeDraftAction st (Some u) (c_request c) 200 ''k3x9q2ab''))
       c_banning c_submissions"


definition c7_players :: "QueuedPlayer list" where
  "c7_players = map asQueuedPlayer c_queue"

text \<open>The result of the match played after the draft, as submitted.\<close>

definition c3_player :: "string \<Rightarrow> string \<Rightarrow> real \<Rightarrow> real \<Rightarrow> real \<Rightarrow> TeamPlayerInput" where
  "c3_player i r k d a =
     \<lparr> tp_odId = i, tp_oduid = i, tp_displayName = i, tp_role = r,
       tp_stats = \<lparr> si_champion = ''Ahri'', si_kills = k, si_deaths = d, si_assists = a,
         si_cs = 200, si_damage = 18000, si_visionScore = 25, si_objectiveScore = 10 \<rparr> \<rparr>"

definition c3_blue :: "TeamPlayerInput list" where
  "c3_blue = [c3_player ''p01'' ''top'' 4 2 6, c3_player ''p03'' ''jungle'' 6 3 9,
     c3_player ''p05'' ''mid'' 8 1 5, c3_player ''p08'' ''adc'' 9 2 4,
     c3_player ''p09'' ''support'' 1 4 15]"

definition c3_red :: "TeamPlayerInput list" where
  "c3_red = [c3_player ''p02'' ''top'' 2 5 3, c3_player ''p04'' ''jungle'' 3 6 5,
     c3_player ''p06'' ''mid'' 4 6 2, c3_player ''p07'' ''adc'' 3 5 3,
     c3_player ''p10'' ''support'' 0 6 7]"

definition c3_request :: SubmitMatchResultData where
  "c3_request = \<lparr> sm_winner = Some Blue, sm_blueTeam = Some c3_blue,
     sm_redTeam = Some c3_red \<rparr>"

section \<open>Properties of the rating engine\<close>

subsection \<open>Totality and range of the performance score\<close>

lemma average_total: "\<exists>a. average xs = Some a"
  by (simp add: average_def js_div_def)

lemma normalizeScore_spec:
  "normalizeScore v a = Some (if a = 0 then 50 else clamp (50 * v / a) 0 100)"
  by (simp add: normalizeScore_def js_div_def mult.commute)

lemma clamp_bounds: "mn \<le> mx \<Longrightarrow> mn \<le> clamp v mn mx \<and> clamp v mn mx \<le> mx"
  by (simp add: clamp_def)

lemma normalizeScore_range:
  "\<exists>s. normalizeScore v a = Some s \<and> 0 \<le> s \<and> s \<le> 100"
  using clamp_bounds [of 0 100 "50 * v / a"] by (simp add: normalizeScore_spec)

lemma Math_round_range:
  "0 \<le> s \<Longrightarrow> s \<le> 100 \<Longrightarrow> 0 \<le> Math_round s \<and> Math_round s \<le> 100"
  unfolding Math_round_def by (simp; linarith)

lemma kda_total:
  "\<exists>k. (if d = 0 then Some ((x + y) * 2) else js_div (x + y) d) = Some (k::real)"
  by (simp add: js_div_def)

text \<open>
  The shape of every result of \<open>calculatePerformanceScore\<close>: five category scores in
  \<open>[0, 100]\<close>, their weighted total \<open>t\<close>, and the rounded fields built from them.
\<close>

lemma calculatePerformanceScore_shape:
  "\<exists>s1 s2 s3 s4 s5 t.
     0 \<le> s1 \<and> s1 \<le> 100 \<and> 0 \<le> s2 \<and> s2 \<le> 100 \<and> 0 \<le> s3 \<and> s3 \<le> 100 \<and>
     0 \<le> s4 \<and> s4 \<le> 100 \<and> 0 \<le> s5 \<and> s5 \<le> 100 \<and> 0 \<le> t \<and> t \<le> 100 \<and>
     calculatePerformanceScore p allStats = Some (Math_round t,
       \<lparr> pb_kdaScore = Math_round s1, pb_damageScore = Math_round s2,
         pb_csScore = Math_round s3, pb_visionScore = Math_round s4,
         pb_objectiveScore = Math_round s5, pb_totalScore = Math_round t,
         pb_multiplier = Math_round (scoreToMultiplier t * 100) / 100 \<rparr>)"
proof -
  obtain aK where aK: "average (map ps_kills allStats) = Some aK"
    using average_total by blast
  obtain aD where aD: "average (map ps_deaths allStats) = Some aD"
    using average_total by blast
  obtain aA where aA: "average (map ps_assists allStats) = Some aA"
    using average_total by blast
  obtain aDm where aDm: "average (map ps_damage allStats) = Some aDm"
    using average_total by blast
  obtain aC where aC: "average (map ps_cs allStats) = Some aC"
    using average_total by blast
  obtain aV where aV: "average (map ps_visionScore allStats) = Some aV"
    using average_total by blast
  obtain aO where aO: "average (map ps_objectiveScore allStats) = Some aO"
    using average_total by blast
  obtain pk where pk: "(if ps_deaths p = 0 then Some ((ps_kills p + ps_assists p) * 2)
        else js_div (ps_kills p + ps_assists p) (ps_deaths p)) = Some pk"
    using kda_total by blast
  obtain ak where ak: "(if aD = 0 then Some ((aK + aA) * 2) else js_div (aK + aA) aD) = Some ak"
    using kda_total by blast
  obtain s1 where s1: "normalizeScore pk ak = Some s1" "0 \<le> s1" "s1 \<le> 100"
    using normalizeScore_range by blast
  obtain s2 where s2: "normalizeScore (ps_damage p) aDm = Some s2" "0 \<le> s2" "s2 \<le> 100"
    using normalizeScore_range by blast
  obtain s3 where s3: "normalizeScore (ps_cs p) aC = Some s3" "0 \<le> s3" "s3 \<le> 100"
    using normalizeScore_range by blast
  obtain s4 where s4: "normalizeScore (ps_visionScore p) aV = Some s4" "0 \<le> s4" "s4 \<le> 100"
    using normalizeScore_range by blast
  obtain s5 where s5: "normalizeScore (ps_objectiveScore p) aO = Some s5" "0 \<le> s5" "s5 \<le> 100"
    using normalizeScore_range by blast
  define t where
    "t = s1 * (30 / 100) + s2 * (25 / 100) + s3 * (20 / 100) + s4 * (15 / 100) + s5 * (10 / 100)"
  have t: "0 \<le> t" "t \<le> 100"
    using s1 s2 s3 s4 s5 unfolding t_def by linarith+
  have eq: "calculatePerformanceScore p allStats = Some (Math_round t,
       \<lparr> pb_kdaScore = Math_round s1, pb_damageScore = Math_round s2,
         pb_csScore = Math_round s3, pb_visionScore = Math_round s4,
         pb_objectiveScore = Math_round s5, pb_totalScore = Math_round t,
         pb_multiplier = Math_round (scoreToMultiplier t * 100) / 100 \<rparr>)"
    unfolding calculatePerformanceScore_def
    by (simp only: aK aD aA aDm aC aV aO pk ak s1 s2 s3 s4 s5 bind.bind_lunit Let_def t_def
        MMR_CONFIG_def mmr_config.simps)
  show ?thesis
    using s1(2,3) s2(2,3) s3(2,3) s4(2,3) s5(2,3) t eq by blast
qed

lemma calculatePerformanceScore_total:
  "\<exists>sc b. calculatePerformanceScore p allStats = Some (sc, b)"
  using calculatePerformanceScore_shape [of p allStats] by blast

subsection \<open>The performance score on all inputs\<close>

text \<open>
  The bound is far above every value of the examples, and \<open>js_number\<close> is the identity
  below it.
\<close>

lemma overflow_bound_large: "10 ^ 300 < overflow_bound"
  unfolding overflow_bound_def by simp

lemma js_number_small: "\<bar>x\<bar> \<le> 1000000000 \<Longrightarrow> js_number x = Finite x"
proof -
  assume "\<bar>x\<bar> \<le> 1000000000"
  moreover have "(1000000000::real) < 10 ^ 300" by simp
  ultimately show ?thesis using overflow_bound_large unfolding js_number_def by auto
qed

lemma overflow_bound_pos: "0 < overflow_bound" "100 < overflow_bound"
  unfolding overflow_bound_def by simp_all

lemma js_number_in_range: "\<bar>x\<bar> < overflow_bound \<Longrightarrow> js_number x = Finite x"
  unfolding js_number_def by auto

lemma js_number_eq_zero [simp]: "js_number x = Finite 0 \<longleftrightarrow> x = 0"
  using overflow_bound_pos unfolding js_number_def by auto

lemma js_number_not_NaN [simp]: "js_number x \<noteq> NaN"
  unfolding js_number_def by simp

lemma NaN_absorbs [simp]:
  "js_add x NaN = NaN" "js_add NaN x = NaN" "js_mul x NaN = NaN" "js_mul NaN x = NaN"
  "js_quot x NaN = NaN" "js_quot NaN x = NaN" "Math_min x NaN = NaN" "Math_min NaN x = NaN"
  "Math_max x NaN = NaN" "Math_max NaN x = NaN"
  by (cases x; simp)+

text \<open>
  No divisor is zero: \<open>average_ext\<close> and \<open>normalizeScore_ext\<close> return on all arguments, and so
  does \<open>calculatePerformanceScore_ext\<close> (below). A category score is \<open>NaN\<close> or lies in
  \<open>[0, 100]\<close>, and it is \<open>NaN\<close> exactly when the average is not zero and an argument is
  \<open>NaN\<close> or both are infinite.
\<close>

lemma average_ext_total: "\<exists>a. average_ext xs = Some a"
  by (simp add: average_ext_def js_div_ext_def)

lemma clamp_ext_cases:
  "clamp_ext v (Finite 0) (Finite 100) = NaN
   \<or> (\<exists>x. clamp_ext v (Finite 0) (Finite 100) = Finite x \<and> 0 \<le> x \<and> x \<le> 100)"
  by (cases v) (simp_all add: clamp_ext_def)

lemma normalizeScore_ext_cases:
  "\<exists>s. normalizeScore_ext v a = Some s
     \<and> (s = NaN \<or> (\<exists>x. s = Finite x \<and> 0 \<le> x \<and> x \<le> 100))"
  using clamp_ext_cases by (simp add: normalizeScore_ext_def js_div_ext_def)

lemma normalizeScore_ext_NaN:
  "normalizeScore_ext v a = Some NaN \<longleftrightarrow>
     a \<noteq> Finite 0
     \<and> (v = NaN \<or> a = NaN \<or> (v \<in> {Infinity, NegInfinity} \<and> a \<in> {Infinity, NegInfinity}))"
  by (cases v; cases a)
     (auto simp: normalizeScore_ext_def js_div_ext_def clamp_ext_def js_number_def
        split: if_splits)

text \<open>
  On finite arguments \<open>normalizeScore_ext\<close> returns the value of \<open>normalizeScore\<close>, also when
  the ratio or the score overflows: an infinity is clamped like the exact value.
\<close>

lemma clamp_ext_score:
  "clamp_ext (js_mul (js_number r) (Finite 50)) (Finite 0) (Finite 100)
     = Finite (clamp (r * 50) 0 100)"
  using overflow_bound_pos(2) by (auto simp: clamp_ext_def clamp_def js_number_def)

lemma normalizeScore_ext_finite:
  "normalizeScore_ext (Finite v) (Finite a) = map_option Finite (normalizeScore v a)"
proof (cases "a = 0")
  case True
  then show ?thesis by (simp add: normalizeScore_ext_def normalizeScore_def)
next
  case False
  have "normalizeScore_ext (Finite v) (Finite a) =
          Some (clamp_ext (js_mul (js_number (v / a)) (Finite 50)) (Finite 0) (Finite 100))"
    using False by (simp add: normalizeScore_ext_def js_div_ext_def)
  moreover have "normalizeScore v a = Some (clamp (v / a * 50) 0 100)"
    using False by (simp add: normalizeScore_def js_div_def)
  ultimately show ?thesis by (simp only: clamp_ext_score option.map)
qed

text \<open>
  A sum whose absolute values add up to less than the bound is computed exactly, and so
  are the average and a KDA ratio within the range.
\<close>

lemma foldl_abs_bound:
  "\<bar>foldl (\<lambda>sum n. sum + n) (a::real) xs\<bar> \<le> \<bar>a\<bar> + sum_list (map abs xs)"
proof (induction xs arbitrary: a)
  case Nil
  then show ?case by simp
next
  case (Cons x xs)
  have "\<bar>foldl (\<lambda>sum n. sum + n) (a + x) xs\<bar> \<le> \<bar>a + x\<bar> + sum_list (map abs xs)"
    by (rule Cons.IH)
  then show ?case by simp
qed

lemma foldl_js_add_finite:
  "\<bar>a::real\<bar> + sum_list (map abs xs) < overflow_bound \<Longrightarrow>
   foldl (\<lambda>sum n. js_add sum n) (Finite a) (map js_number xs)
     = Finite (foldl (\<lambda>sum n. sum + n) a xs)"
proof (induction xs arbitrary: a)
  case Nil
  then show ?case by simp
next
  case (Cons x xs)
  have s: "0 \<le> sum_list (map abs xs)" by (rule sum_list_nonneg) auto
  have x: "js_number x = Finite x"
    using Cons.prems s by (intro js_number_in_range) simp
  have ax: "js_number (a + x) = Finite (a + x)"
    using Cons.prems s by (intro js_number_in_range) simp
  have "\<bar>a + x\<bar> + sum_list (map abs xs) < overflow_bound"
    using Cons.prems by simp
  then show ?case using Cons.IH [of "a + x"] by (simp add: x ax)
qed

lemma average_ext_finite:
  assumes "sum_list (map (\<lambda>s. \<bar>f s :: real\<bar>) xs) < overflow_bound"
  shows "average_ext (map (\<lambda>s. js_number (f s)) xs) = map_option Finite (average (map f xs))"
proof (cases "xs = []")
  case True
  then show ?thesis by (simp add: average_ext_def average_def)
next
  case False
  define S where "S = foldl (\<lambda>sum n. sum + n) 0 (map f xs)"
  have m: "map (\<lambda>s. js_number (f s)) xs = map js_number (map f xs)" by simp
  have a: "sum_list (map abs (map f xs)) < overflow_bound"
    using assms by (simp add: o_def)
  have fo: "foldl (\<lambda>sum n. js_add sum n) (Finite 0) (map js_number (map f xs)) = Finite S"
    unfolding S_def using a by (intro foldl_js_add_finite) simp
  have "\<bar>S\<bar> \<le> sum_list (map abs (map f xs))"
    unfolding S_def using foldl_abs_bound [of 0 "map f xs"] by simp
  then have S: "\<bar>S\<bar> < overflow_bound" using a by linarith
  have n: "1 \<le> real (length xs)" using False by (cases xs) simp_all
  have "\<bar>S\<bar> * 1 \<le> \<bar>S\<bar> * real (length xs)"
    using n by (intro mult_left_mono) simp_all
  then have "\<bar>S\<bar> / real (length xs) \<le> \<bar>S\<bar>"
    using False by (simp add: divide_le_eq)
  then have q: "js_number (S / real (length xs)) = Finite (S / real (length xs))"
    using S by (intro js_number_in_range) simp
  have 1: "average_ext (map (\<lambda>s. js_number (f s)) xs) = Some (Finite (S / real (length xs)))"
    unfolding m average_ext_def using False fo by (simp add: js_div_ext_def q)
  have 2: "average (map f xs) = Some (S / real (length xs))"
    unfolding average_def S_def using False by (simp add: js_div_def)
  show ?thesis by (simp add: 1 2)
qed

lemma kda_ext_finite:
  assumes "kda_in_range k d a"
  shows "(if Finite d = Finite 0 then Some (js_mul (js_add (Finite k) (Finite a)) (Finite 2))
          else js_div_ext (js_add (Finite k) (Finite a)) (Finite d))
         = map_option Finite (if d = 0 then Some ((k + a) * 2) else js_div (k + a) d)"
proof -
  have s: "js_number (k + a) = Finite (k + a)"
    using assms by (intro js_number_in_range) (simp add: kda_in_range_def)
  show ?thesis
  proof (cases "d = 0")
    case True
    then have "js_number ((k + a) * 2) = Finite ((k + a) * 2)"
      using assms by (intro js_number_in_range) (simp add: kda_in_range_def)
    then show ?thesis using True by (simp add: s)
  next
    case False
    then have "js_number ((k + a) / d) = Finite ((k + a) / d)"
      using assms by (intro js_number_in_range) (simp add: kda_in_range_def)
    then show ?thesis
      using False by (simp add: js_div_ext_def js_div_def s)
  qed
qed

text \<open>
  From scores in \<open>[0, 100]\<close> on, nothing overflows: the weighted total, the multiplier and
  the rounded fields are those of the real-valued definitions.
\<close>

lemma Math_round_ext_finite:
  assumes "0 \<le> s" "s \<le> 200"
  shows "Math_round_ext (Finite s) = Finite (Math_round s)"
proof -
  have "0 \<le> Math_round s \<and> Math_round s \<le> 201"
    using assms unfolding Math_round_def by (simp; linarith)
  then show ?thesis by (simp add: js_number_small)
qed

lemma Math_round_ext_score:
  "0 \<le> s \<Longrightarrow> s \<le> 100 \<Longrightarrow> Math_round_ext (Finite s) = Finite (Math_round s)"
  by (rule Math_round_ext_finite) simp_all

lemma weighted_total_finite:
  assumes "0 \<le> s1" "s1 \<le> 100" "0 \<le> s2" "s2 \<le> 100" "0 \<le> s3" "s3 \<le> 100"
    "0 \<le> s4" "s4 \<le> 100" "0 \<le> s5" "s5 \<le> 100"
  shows "js_add (js_add (js_add (js_add
           (js_mul (Finite s1) (Finite (30 / 100)))
           (js_mul (Finite s2) (Finite (25 / 100))))
           (js_mul (Finite s3) (Finite (20 / 100))))
           (js_mul (Finite s4) (Finite (15 / 100))))
           (js_mul (Finite s5) (Finite (10 / 100)))
         = Finite (s1 * (30 / 100) + s2 * (25 / 100) + s3 * (20 / 100) + s4 * (15 / 100)
             + s5 * (10 / 100))"
  using assms by (simp add: js_number_small)

lemma scoreToMultiplier_ext_finite:
  assumes "0 \<le> t" "t \<le> 100"
  shows "scoreToMultiplier_ext (Finite t) = Finite (scoreToMultiplier t)"
  using assms
  by (simp add: scoreToMultiplier_ext_def scoreToMultiplier_def clamp_ext_def clamp_def
      MMR_CONFIG_def js_number_small)

lemma multiplier_field_finite:
  assumes "0 \<le> t" "t \<le> 100"
  shows "js_quot (Math_round_ext (js_mul (scoreToMultiplier_ext (Finite t)) (Finite 100)))
           (Finite 100) = Finite (Math_round (scoreToMultiplier t * 100) / 100)"
proof -
  have m: "5 / 10 \<le> scoreToMultiplier t" "scoreToMultiplier t \<le> 15 / 10"
    using clamp_bounds [of "5 / 10" "15 / 10" "5 / 10 + t / 100"]
    by (simp_all add: scoreToMultiplier_def MMR_CONFIG_def)
  have 1: "js_mul (Finite (scoreToMultiplier t)) (Finite 100) = Finite (scoreToMultiplier t * 100)"
    using m by (simp add: js_number_small)
  have 2: "Math_round_ext (Finite (scoreToMultiplier t * 100))
             = Finite (Math_round (scoreToMultiplier t * 100))"
    using m by (intro Math_round_ext_finite) simp_all
  have "0 \<le> Math_round (scoreToMultiplier t * 100)
        \<and> Math_round (scoreToMultiplier t * 100) \<le> 201"
    using m unfolding Math_round_def by (simp; linarith)
  then have 3: "js_quot (Finite (Math_round (scoreToMultiplier t * 100))) (Finite 100)
             = Finite (Math_round (scoreToMultiplier t * 100) / 100)"
    by (simp add: js_number_small)
  show ?thesis
    by (simp only: scoreToMultiplier_ext_finite [OF assms] 1 2 3)
qed

text \<open>
  On inputs without overflow \<open>calculatePerformanceScore_ext\<close> returns exactly the values
  of \<open>calculatePerformanceScore\<close>.
\<close>

lemma calculatePerformanceScore_ext_finite:
  assumes "no_overflow p allStats"
  shows "calculatePerformanceScore_ext p allStats =
           map_option (\<lambda>(sc, b). (Finite sc, breakdown_ext b))
             (calculatePerformanceScore p allStats)"
proof -
  have r: "\<bar>ps_kills p\<bar> < overflow_bound" "\<bar>ps_deaths p\<bar> < overflow_bound"
    "\<bar>ps_assists p\<bar> < overflow_bound" "\<bar>ps_damage p\<bar> < overflow_bound"
    "\<bar>ps_cs p\<bar> < overflow_bound" "\<bar>ps_visionScore p\<bar> < overflow_bound"
    "\<bar>ps_objectiveScore p\<bar> < overflow_bound"
    and su: "sum_list (map (\<lambda>s. \<bar>ps_kills s\<bar>) allStats) < overflow_bound"
    "sum_list (map (\<lambda>s. \<bar>ps_deaths s\<bar>) allStats) < overflow_bound"
    "sum_list (map (\<lambda>s. \<bar>ps_assists s\<bar>) allStats) < overflow_bound"
    "sum_list (map (\<lambda>s. \<bar>ps_damage s\<bar>) allStats) < overflow_bound"
    "sum_list (map (\<lambda>s. \<bar>ps_cs s\<bar>) allStats) < overflow_bound"
    "sum_list (map (\<lambda>s. \<bar>ps_visionScore s\<bar>) allStats) < overflow_bound"
    "sum_list (map (\<lambda>s. \<bar>ps_objectiveScore s\<bar>) allStats) < overflow_bound"
    and kp: "kda_in_range (ps_kills p) (ps_deaths p) (ps_assists p)"
    and ka: "case (average (map ps_kills allStats), average (map ps_deaths allStats),
               average (map ps_assists allStats)) of
          (Some k, Some d, Some a) \<Rightarrow> kda_in_range k d a
        | _ \<Rightarrow> False"
    using assms by (simp_all add: no_overflow_def)
  note n = r [THEN js_number_in_range]
  obtain aK where aK: "average (map ps_kills allStats) = Some aK"
    using average_total by blast
  obtain aD where aD: "average (map ps_deaths allStats) = Some aD"
    using average_total by blast
  obtain aA where aA: "average (map ps_assists allStats) = Some aA"
    using average_total by blast
  obtain aDm where aDm: "average (map ps_damage allStats) = Some aDm"
    using average_total by blast
  obtain aC where aC: "average (map ps_cs allStats) = Some aC"
    using average_total by blast
  obtain aV where aV: "average (map ps_visionScore allStats) = Some aV"
    using average_total by blast
  obtain aO where aO: "average (map ps_objectiveScore allStats) = Some aO"
    using average_total by blast
  have xK: "average_ext (map (\<lambda>s. js_number (ps_kills s)) allStats) = Some (Finite aK)"
    using average_ext_finite [OF su(1)] by (simp add: aK)
  have xD: "average_ext (map (\<lambda>s. js_number (ps_deaths s)) allStats) = Some (Finite aD)"
    using average_ext_finite [OF su(2)] by (simp add: aD)
  have xA: "average_ext (map (\<lambda>s. js_number (ps_assists s)) allStats) = Some (Finite aA)"
    using average_ext_finite [OF su(3)] by (simp add: aA)
  have xDm: "average_ext (map (\<lambda>s. js_number (ps_damage s)) allStats) = Some (Finite aDm)"
    using average_ext_finite [OF su(4)] by (simp add: aDm)
  have xC: "average_ext (map (\<lambda>s. js_number (ps_cs s)) allStats) = Some (Finite aC)"
    using average_ext_finite [OF su(5)] by (simp add: aC)
  have xV: "average_ext (map (\<lambda>s. js_number (ps_visionScore s)) allStats) = Some (Finite aV)"
    using average_ext_finite [OF su(6)] by (simp add: aV)
  have xO: "average_ext (map (\<lambda>s. js_number (ps_objectiveScore s)) allStats) = Some (Finite aO)"
    using average_ext_finite [OF su(7)] by (simp add: aO)
  obtain pk where pk: "(if ps_deaths p = 0 then Some ((ps_kills p + ps_assists p) * 2)
        else js_div (ps_kills p + ps_assists p) (ps_deaths p)) = Some pk"
    using kda_total by blast
  obtain ak where ak: "(if aD = 0 then Some ((aK + aA) * 2) else js_div (aK + aA) aD) = Some ak"
    using kda_total by blast
  have xpk: "(if Finite (ps_deaths p) = Finite 0
        then Some (js_mul (js_add (Finite (ps_kills p)) (Finite (ps_assists p))) (Finite 2))
        else js_div_ext (js_add (Finite (ps_kills p)) (Finite (ps_assists p)))
               (Finite (ps_deaths p))) = Some (Finite pk)"
    unfolding kda_ext_finite [OF kp] pk by simp
  have ka': "kda_in_range aK aD aA" using ka by (simp add: aK aD aA)
  have xak: "(if Finite aD = Finite 0
        then Some (js_mul (js_add (Finite aK) (Finite aA)) (Finite 2))
        else js_div_ext (js_add (Finite aK) (Finite aA)) (Finite aD)) = Some (Finite ak)"
    unfolding kda_ext_finite [OF ka'] ak by simp
  obtain s1 where s1: "normalizeScore pk ak = Some s1" "0 \<le> s1" "s1 \<le> 100"
    using normalizeScore_range by blast
  obtain s2 where s2: "normalizeScore (ps_damage p) aDm = Some s2" "0 \<le> s2" "s2 \<le> 100"
    using normalizeScore_range by blast
  obtain s3 where s3: "normalizeScore (ps_cs p) aC = Some s3" "0 \<le> s3" "s3 \<le> 100"
    using normalizeScore_range by blast
  obtain s4 where s4: "normalizeScore (ps_visionScore p) aV = Some s4" "0 \<le> s4" "s4 \<le> 100"
    using normalizeScore_range by blast
  obtain s5 where s5: "normalizeScore (ps_objectiveScore p) aO = Some s5" "0 \<le> s5" "s5 \<le> 100"
    using normalizeScore_range by blast
  have x1: "normalizeScore_ext (Finite pk) (Finite ak) = Some (Finite s1)"
    by (simp add: normalizeScore_ext_finite s1(1))
  have x2: "normalizeScore_ext (Finite (ps_damage p)) (Finite aDm) = Some (Finite s2)"
    by (simp add: normalizeScore_ext_finite s2(1))
  have x3: "normalizeScore_ext (Finite (ps_cs p)) (Finite aC) = Some (Finite s3)"
    by (simp add: normalizeScore_ext_finite s3(1))
  have x4: "normalizeScore_ext (Finite (ps_visionScore p)) (Finite aV) = Some (Finite s4)"
    by (simp add: normalizeScore_ext_finite s4(1))
  have x5: "normalizeScore_ext (Finite (ps_objectiveScore p)) (Finite aO) = Some (Finite s5)"
    by (simp add: normalizeScore_ext_finite s5(1))
  define t where
    "t = s1 * (30 / 100) + s2 * (25 / 100) + s3 * (20 / 100) + s4 * (15 / 100) + s5 * (10 / 100)"
  have t: "0 \<le> t" "t \<le> 100"
    using s1 s2 s3 s4 s5 unfolding t_def by linarith+
  note w = weighted_total_finite [OF s1(2,3) s2(2,3) s3(2,3) s4(2,3) s5(2,3), folded t_def]
  note rd = Math_round_ext_score [OF s1(2,3)] Math_round_ext_score [OF s2(2,3)]
    Math_round_ext_score [OF s3(2,3)] Math_round_ext_score [OF s4(2,3)]
    Math_round_ext_score [OF s5(2,3)] Math_round_ext_score [OF t]
  have c: "calculatePerformanceScore p allStats = Some (Math_round t,
       \<lparr> pb_kdaScore = Math_round s1, pb_damageScore = Math_round s2,
         pb_csScore = Math_round s3, pb_visionScore = Math_round s4,
         pb_objectiveScore = Math_round s5, pb_totalScore = Math_round t,
         pb_multiplier = Math_round (scoreToMultiplier t * 100) / 100 \<rparr>)"
    unfolding calculatePerformanceScore_def
    by (simp only: aK aD aA aDm aC aV aO pk ak s1 s2 s3 s4 s5 bind.bind_lunit Let_def t_def
        MMR_CONFIG_def mmr_config.simps)
  have x: "calculatePerformanceScore_ext p allStats = Some (Finite (Math_round t),
       \<lparr> pbx_kdaScore = Finite (Math_round s1), pbx_damageScore = Finite (Math_round s2),
         pbx_csScore = Finite (Math_round s3), pbx_visionScore = Finite (Math_round s4),
         pbx_objectiveScore = Finite (Math_round s5), pbx_totalScore = Finite (Math_round t),
         pbx_multiplier = Finite (Math_round (scoreToMultiplier t * 100) / 100) \<rparr>)"
    unfolding calculatePerformanceScore_ext_def
    by (simp only: xK xD xA xDm xC xV xO n xpk xak x1 x2 x3 x4 x5 bind.bind_lunit Let_def
        MMR_CONFIG_def mmr_config.simps w rd multiplier_field_finite [OF t])
  show ?thesis
    unfolding c x by (simp add: breakdown_ext_def)
qed

lemma calculatePerformanceScore_ext_total:
  "\<exists>sc b. calculatePerformanceScore_ext p allStats = Some (sc, b)"
proof -
  obtain aK where aK: "average_ext (map (\<lambda>s. js_number (ps_kills s)) allStats) = Some aK"
    using average_ext_total by blast
  obtain aD where aD: "average_ext (map (\<lambda>s. js_number (ps_deaths s)) allStats) = Some aD"
    using average_ext_total by blast
  obtain aA where aA: "average_ext (map (\<lambda>s. js_number (ps_assists s)) allStats) = Some aA"
    using average_ext_total by blast
  obtain aDm where aDm: "average_ext (map (\<lambda>s. js_number (ps_damage s)) allStats) = Some aDm"
    using average_ext_total by blast
  obtain aC where aC: "average_ext (map (\<lambda>s. js_number (ps_cs s)) allStats) = Some aC"
    using average_ext_total by blast
  obtain aV where aV: "average_ext (map (\<lambda>s. js_number (ps_visionScore s)) allStats) = Some aV"
    using average_ext_total by blast
  obtain aO where
    aO: "average_ext (map (\<lambda>s. js_number (ps_objectiveScore s)) allStats) = Some aO"
    using average_ext_total by blast
  obtain s1 where s1: "normalizeScore_ext x y = Some (s1 x y)" for x y
    using normalizeScore_ext_cases by metis
  show ?thesis
    unfolding calculatePerformanceScore_ext_def
    by (simp add: aK aD aA aDm aC aV aO s1 js_div_ext_def Let_def)
qed

text \<open>
  The example match of ten equal players has no overflow, so the hypothesis of
  \<open>calculatePerformanceScore_ext_finite\<close> can be met.
\<close>

lemma no_overflow_example:
  "no_overflow (c2_stats ''b1'' Blue) (mc_allPlayerStats c2_context)"
proof -
  have "(1000000::real) < 10 ^ 300" by simp
  then have b: "1000000 < overflow_bound" using overflow_bound_large by linarith
  show ?thesis
    using b
    by (simp add: no_overflow_def kda_in_range_def c2_context_def c2_stats_def average_def
        js_div_def)
qed

text \<open>
  In the match with the two overflowing statistics the averages of kills and of deaths
  are \<open>Infinity\<close>.
\<close>

lemma js_number_huge:
  "js_number c10_huge = Finite c10_huge" "js_number (c10_huge + c10_huge) = Infinity"
  "js_number (2 * c10_huge) = Infinity"
  unfolding js_number_def c10_huge_def overflow_bound_def by simp_all

lemma c10_huge_nonzero: "c10_huge \<noteq> 0"
  unfolding c10_huge_def by simp

lemma c10_avg_kills:
  "average_ext (map (\<lambda>s. js_number (ps_kills s)) c10_allStats) = Some Infinity"
  by (simp add: c10_allStats_def c10_overflow_def c2_stats_def average_ext_def js_div_ext_def
      js_number_small js_number_huge)

lemma c10_avg_deaths:
  "average_ext (map (\<lambda>s. js_number (ps_deaths s)) c10_allStats) = Some Infinity"
  by (simp add: c10_allStats_def c10_overflow_def c2_stats_def average_ext_def js_div_ext_def
      js_number_small js_number_huge)

lemma c10_avg_others:
  "average_ext (map (\<lambda>s. js_number (ps_assists s)) c10_allStats) = Some (Finite 7)"
  "average_ext (map (\<lambda>s. js_number (ps_damage s)) c10_allStats) = Some (Finite 20000)"
  "average_ext (map (\<lambda>s. js_number (ps_cs s)) c10_allStats) = Some (Finite 180)"
  "average_ext (map (\<lambda>s. js_number (ps_visionScore s)) c10_allStats) = Some (Finite 30)"
  "average_ext (map (\<lambda>s. js_number (ps_objectiveScore s)) c10_allStats) = Some (Finite 12)"
  by (simp_all add: c10_allStats_def c10_overflow_def c2_stats_def average_ext_def js_div_ext_def
      js_number_small)

text \<open>
  C10. The performance score is not confined to \<open>[0, 100]\<close> on every input. In a match in
  which two players report \<open>1e308\<close> kills and \<open>1e308\<close> deaths, each a finite double, the sums
  of the kills and of the deaths overflow to \<open>Infinity\<close>, the average KDA is
  \<open>Infinity / Infinity = NaN\<close>, the guard \<open>avg === 0\<close> of \<open>normalizeScore\<close> does not fire, and
  \<open>clamp\<close> returns \<open>NaN\<close>: for each of the ten players of the match the function returns,
  with the KDA score, the total score and the multiplier \<open>NaN\<close>, for which neither
  \<open>0 <= NaN\<close> nor \<open>NaN <= 100\<close> holds.
\<close>

theorem performance_score_NaN_on_overflowing_sum:
  "js_number c10_huge = Finite c10_huge
   \<and> list_all (\<lambda>p. calculatePerformanceScore_ext p c10_allStats = Some (NaN, c10_breakdown))
         c10_allStats
   \<and> \<not> js_le (Finite 0) (pbx_kdaScore c10_breakdown)
   \<and> \<not> js_le (pbx_kdaScore c10_breakdown) (Finite 100)"
proof -
  have o: "calculatePerformanceScore_ext (c10_overflow i t) c10_allStats
             = Some (NaN, c10_breakdown)" for i t
    unfolding calculatePerformanceScore_ext_def
    by (simp add: c10_avg_kills c10_avg_deaths c10_avg_others c10_overflow_def js_div_ext_def
        js_number_small normalizeScore_ext_def clamp_ext_def scoreToMultiplier_ext_def
        MMR_CONFIG_def Let_def Math_round_def c10_huge_nonzero c10_breakdown_def)
  have p: "calculatePerformanceScore_ext (c2_stats i t) c10_allStats
             = Some (NaN, c10_breakdown)" for i t
    unfolding calculatePerformanceScore_ext_def
    by (simp add: c10_avg_kills c10_avg_deaths c10_avg_others c2_stats_def js_div_ext_def
        js_number_small normalizeScore_ext_def clamp_ext_def scoreToMultiplier_ext_def
        MMR_CONFIG_def Let_def Math_round_def c10_breakdown_def)
  have l: "list_all (\<lambda>p. calculatePerformanceScore_ext p c10_allStats
             = Some (NaN, c10_breakdown)) c10_allStats"
    by (subst (2) c10_allStats_def) (simp add: o p)
  show ?thesis
    using l by (simp add: js_number_huge c10_breakdown_def)
qed

subsection \<open>The rating change\<close>

lemma multiplier_of_score_50:
  assumes "0 \<le> t" "t \<le> 100" "Math_round t = 50"
  shows "Math_round (scoreToMultiplier t * 100) / 100 = 1"
proof -
  have "\<lfloor>t + 1 / 2\<rfloor> = 50" using assms(3) unfolding Math_round_def by linarith
  then have r: "99 / 2 \<le> t" "t < 101 / 2" by linarith+
  have "scoreToMultiplier t = 5 / 10 + t / 100"
    using assms(1,2) by (simp add: scoreToMultiplier_def clamp_def MMR_CONFIG_def)
  then have "scoreToMultiplier t * 100 + 1 / 2 = t + 101 / 2" by simp
  moreover have "\<lfloor>t + 101 / 2\<rfloor> = 100" using r by linarith
  ultimately show ?thesis by (simp add: Math_round_def)
qed

lemma performance_multiplier_50:
  assumes "calculatePerformanceScore p allStats = Some (50, b)"
  shows "pb_multiplier b = 1"
proof -
  obtain t where t: "0 \<le> t" "t \<le> 100"
    and eq: "\<exists>s1 s2 s3 s4 s5. calculatePerformanceScore p allStats = Some (Math_round t,
       \<lparr> pb_kdaScore = Math_round s1, pb_damageScore = Math_round s2,
         pb_csScore = Math_round s3, pb_visionScore = Math_round s4,
         pb_objectiveScore = Math_round s5, pb_totalScore = Math_round t,
         pb_multiplier = Math_round (scoreToMultiplier t * 100) / 100 \<rparr>)"
    using calculatePerformanceScore_shape [of p allStats] by blast
  from eq assms have "Math_round t = 50"
    and "pb_multiplier b = Math_round (scoreToMultiplier t * 100) / 100"
    by auto
  then show ?thesis using multiplier_of_score_50 [OF t] by simp
qed

lemma opponentMultiplier_total:
  "\<exists>m. calculateOpponentMultiplier pm om w = Some m"
proof -
  have "0 \<le> 10 powr ((om - pm) / 400)" by simp
  then have "1 + 10 powr ((om - pm) / 400) \<noteq> 0" by linarith
  then show ?thesis by (simp add: calculateOpponentMultiplier_def js_div_def Let_def)
qed

text \<open>Against an opponent of equal rating the opponent multiplier is 1.2, win or lose.\<close>

lemma opponentMultiplier_equal:
  "calculateOpponentMultiplier m m w = Some (12 / 10)"
  by (simp add: calculateOpponentMultiplier_def js_div_def Let_def clamp_def MMR_CONFIG_def)

lemma c2_score:
  "calculatePerformanceScore (c2_stats ''b1'' Blue) (mc_allPlayerStats c2_context)
     = Some (50, c2_breakdown)"
  by (simp add: calculatePerformanceScore_def c2_context_def c2_stats_def c2_breakdown_def
      average_def js_div_def normalizeScore_def clamp_def Math_round_def scoreToMultiplier_def
      MMR_CONFIG_def Let_def)

lemma c2_fields:
  "mc_winner c2_context = Blue" "mc_blueTeamAvgMmr c2_context = 1000"
  "mc_redTeamAvgMmr c2_context = 1000"
  "ps_team (c2_stats i t) = t" "ps_mmrAtTime (c2_stats i t) = 1000"
  by (simp_all add: c2_context_def c2_stats_def)

text \<open>
  C2, as the specification states it, fails: a player rated 1000 who wins with a
  performance score of exactly 50 against a team averaging 1000, outside placement, gains
  30 and not 25, because the opponent multiplier at equal ratings is 1.2 and not 1.0.
\<close>

theorem average_win_is_not_base_change:
  "map_option fst (calculateMMRChange (c2_stats ''b1'' Blue) c2_context False) = Some 30
   \<and> map_option fst (calculateMMRChange (c2_stats ''b1'' Blue) c2_context False) \<noteq> Some 25
   \<and> applyMMRChange 1000 30 = 1030"
  by (simp add: calculateMMRChange_def unroundedChange_def c2_score
      calculateOpponentMultiplier_def c2_fields c2_breakdown_def js_div_def clamp_def
      Math_round_def MMR_CONFIG_def Let_def applyMMRChange_def)

text \<open>
  C2, amended. For a player outside placement whose performance score is exactly 50 and
  whose rating equals the opponent team's average rating, the performance multiplier is
  1.0 and the opponent multiplier is 1.2, so the change is \<open>round (25 * 1.0 * 1.2) = 30\<close> for
  a win and \<open>- 30\<close> for a loss; a player rated 1000 moves to 1030 or 970.
\<close>

theorem average_performance_equal_opponent_change:
  assumes "calculatePerformanceScore p (mc_allPlayerStats ctx) = Some (50, b)"
    and "ps_mmrAtTime p =
           (if ps_team p = Blue then mc_redTeamAvgMmr ctx else mc_blueTeamAvgMmr ctx)"
  shows "calculateMMRChange p ctx False =
           Some (if ps_team p = mc_winner ctx then 30 else - 30, 50, b)
         \<and> applyMMRChange 1000 30 = 1030 \<and> applyMMRChange 1000 (- 30) = 970"
proof -
  have m: "pb_multiplier b = 1" using assms(1) by (rule performance_multiplier_50)
  have o: "calculateOpponentMultiplier (ps_mmrAtTime p)
             (if ps_team p = Blue then mc_redTeamAvgMmr ctx else mc_blueTeamAvgMmr ctx) w
           = Some (12 / 10)" for w
    using assms(2) opponentMultiplier_equal by simp
  have u: "unroundedChange p ctx False = Some (if ps_team p = mc_winner ctx then 30 else - 30)"
    unfolding unroundedChange_def by (simp add: assms(1) m o Let_def MMR_CONFIG_def)
  have r: "Math_round 30 = 30" "Math_round (- 30) = - 30" by (simp_all add: Math_round_def)
  have c: "calculateMMRChange p ctx False =
           Some (if ps_team p = mc_winner ctx then 30 else - 30, 50, b)"
    unfolding calculateMMRChange_def by (simp add: assms(1) u r)
  have a: "applyMMRChange 1000 30 = 1030" "applyMMRChange 1000 (- 30) = 970"
    by (simp_all add: applyMMRChange_def clamp_def MMR_CONFIG_def)
  show ?thesis using c a by simp
qed

theorem average_performance_equal_opponent_change_witness:
  "calculatePerformanceScore (c2_stats ''b1'' Blue) (mc_allPlayerStats c2_context)
     = Some (50, c2_breakdown)
   \<and> ps_mmrAtTime (c2_stats ''b1'' Blue) = mc_redTeamAvgMmr c2_context
   \<and> calculateMMRChange (c2_stats ''b1'' Blue) c2_context False = Some (30, 50, c2_breakdown)"
  using average_performance_equal_opponent_change
          [of "c2_stats ''b1'' Blue" c2_context c2_breakdown] c2_score
  by (simp add: c2_fields)

text \<open>
  C9. With the same statistics and match context, the change computed with
  \<open>isPlacement = true\<close> is, before the final rounding, exactly twice the change computed
  with \<open>isPlacement = false\<close>; \<open>calculateMMRChange\<close> returns the rounding of these values.
\<close>

theorem placement_doubles_unrounded_change:
  "\<exists>c sc b. unroundedChange p ctx False = Some c \<and> unroundedChange p ctx True = Some (2 * c)
     \<and> calculateMMRChange p ctx False = Some (Math_round c, sc, b)
     \<and> calculateMMRChange p ctx True = Some (Math_round (2 * c), sc, b)"
proof -
  obtain sc b where ps: "calculatePerformanceScore p (mc_allPlayerStats ctx) = Some (sc, b)"
    using calculatePerformanceScore_total by blast
  obtain m where om: "calculateOpponentMultiplier (ps_mmrAtTime p)
      (if ps_team p = Blue then mc_redTeamAvgMmr ctx else mc_blueTeamAvgMmr ctx)
      (ps_team p = mc_winner ctx) = Some m"
    using opponentMultiplier_total by blast
  define c where "c = 25 * (if ps_team p = mc_winner ctx then 1 else - 1) * pb_multiplier b * m"
  have f: "unroundedChange p ctx False = Some c"
    unfolding unroundedChange_def by (simp add: ps om Let_def MMR_CONFIG_def c_def)
  have t: "unroundedChange p ctx True = Some (2 * c)"
    unfolding unroundedChange_def by (simp add: ps om Let_def MMR_CONFIG_def c_def)
  show ?thesis
    unfolding calculateMMRChange_def by (simp add: ps f t)
qed

lemma unroundedChange_total: "\<exists>c. unroundedChange p ctx pl = Some c"
proof -
  obtain sc b where ps: "calculatePerformanceScore p (mc_allPlayerStats ctx) = Some (sc, b)"
    using calculatePerformanceScore_total by blast
  obtain m where om: "calculateOpponentMultiplier (ps_mmrAtTime p)
      (if ps_team p = Blue then mc_redTeamAvgMmr ctx else mc_blueTeamAvgMmr ctx)
      (ps_team p = mc_winner ctx) = Some m"
    using opponentMultiplier_total by blast
  show ?thesis unfolding unroundedChange_def by (simp add: ps om Let_def)
qed

lemma calculateMMRChange_total: "\<exists>c sc b. calculateMMRChange p ctx pl = Some (c, sc, b)"
proof -
  obtain sc b where ps: "calculatePerformanceScore p (mc_allPlayerStats ctx) = Some (sc, b)"
    using calculatePerformanceScore_total by blast
  obtain c where c: "unroundedChange p ctx pl = Some c" using unroundedChange_total by blast
  show ?thesis unfolding calculateMMRChange_def by (simp add: ps c)
qed


section \<open>The example session\<close>

text \<open>
  The match is found on the example queue, the session is banning after the ten ready
  calls and completed after the sixteen submissions; all three stores are reachable.
\<close>

lemma c_store_found:
  "tryMatchPlayers c_store ''draft0001'' 100 = (Some (True, Some ''draft0001''), c_waiting)"
proof -
  have "fst (tryMatchPlayers c_store ''draft0001'' 100) = Some (True, Some ''draft0001'')"
    by code_simp
  then show ?thesis unfolding c_waiting_def by (simp add: prod_eq_iff)
qed


lemma c_completed_status:
  "map_option ds_status (st_drafts c_completed ''draft0001'') = Some Completed"
  by code_simp

lemma reachable_ready:
  "reachable st \<Longrightarrow> reachable (foldl (\<lambda>st u. snd (setDraftReady st (Some u) i n)) st us)"
  by (induction us arbitrary: st) (simp_all add: reachable.moved transition.ready)

lemma reachable_submissions:
  "reachable st \<Longrightarrow>
     reachable (foldl (\<lambda>st (u, c). snd (makeDraftAction st (Some u) (f c) n k)) st ucs)"
  by (induction ucs arbitrary: st) (auto intro: reachable.moved transition.submitAction)

lemma c_waiting_reachable: "reachable c_waiting"
proof -
  have "reachable c_store" by (rule reachable.initial) (simp add: c_store_def)
  moreover have "st_drafts c_store ''draft0001'' = None" by (simp add: c_store_def)
  ultimately show ?thesis unfolding c_waiting_def by (rule reachable.created)
qed

lemma c_banning_reachable: "reachable c_banning"
  unfolding c_banning_def using c_waiting_reachable by (rule reachable_ready)

lemma c_completed_reachable: "reachable c_completed"
  unfolding c_completed_def using c_banning_reachable by (rule reachable_submissions)


section \<open>The action template\<close>

lemma createDraftActions_list:
  "createDraftActions =
     [\<lparr>da_phase = 0, da_type = Ban, da_team = Blue, da_championId = None, da_championName = None, da_completedAt = None, da_isActive = True\<rparr>,
      \<lparr>da_phase = 1, da_type = Ban, da_team = Red, da_championId = None, da_championName = None, da_completedAt = None, da_isActive = False\<rparr>,
      \<lparr>da_phase = 2, da_type = Ban, da_team = Blue, da_championId = None, da_championName = None, da_completedAt = None, da_isActive = False\<rparr>,
      \<lparr>da_phase = 3, da_type = Ban, da_team = Red, da_championId = None, da_championName = None, da_completedAt = None, da_isActive = False\<rparr>,
      \<lparr>da_phase = 4, da_type = Ban, da_team = Blue, da_championId = None, da_championName = None, da_completedAt = None, da_isActive = False\<rparr>,
      \<lparr>da_phase = 5, da_type = Ban, da_team = Red, da_championId = None, da_championName = None, da_completedAt = None, da_isActive = False\<rparr>,
      \<lparr>da_phase = 6, da_type = Pick, da_team = Blue, da_championId = None, da_championName = None, da_completedAt = None, da_isActive = False\<rparr>,
      \<lparr>da_phase = 7, da_type = Pick, da_team = Red, da_championId = None, da_championName = None, da_completedAt = None, da_isActive = False\<rparr>,
      \<lparr>da_phase = 8, da_type = Pick, da_team = Red, da_championId = None, da_championName = None, da_completedAt = None, da_isActive = False\<rparr>,
      \<lparr>da_phase = 9, da_type = Pick, da_team = Blue, da_championId = None, da_championName = None, da_completedAt = None, da_isActive = False\<rparr>,
      \<lparr>da_phase = 10, da_type = Pick, da_team = Blue, da_championId = None, da_championName = None, da_completedAt = None, da_isActive = False\<rparr>,
      \<lparr>da_phase = 11, da_type = Pick, da_team = Red, da_championId = None, da_championName = None, da_completedAt = None, da_isActive = False\<rparr>,
      \<lparr>da_phase = 12, da_type = Pick, da_team = Red, da_championId = None, da_championName = None, da_completedAt = None, da_isActive = False\<rparr>,
      \<lparr>da_phase = 13, da_type = Pick, da_team = Blue, da_championId = None, da_championName = None, da_completedAt = None, da_isActive = False\<rparr>,
      \<lparr>da_phase = 14, da_type = Pick, da_team = Blue, da_championId = None, da_championName = None, da_completedAt = None, da_isActive = False\<rparr>,
      \<lparr>da_phase = 15, da_type = Pick, da_team = Red, da_championId = None, da_championName = None, da_completedAt = None, da_isActive = False\<rparr>]"
  by (simp add: createDraftActions_def enumerate_eq_zip upt_rec)

lemma createDraftActions_props:
  "length createDraftActions = 16"
  "map da_phase createDraftActions = [0, 1, 2, 3, 4, 5, 6, 7, 8, 9, 10, 11, 12, 13, 14, 15]"
  "map da_type createDraftActions = [Ban, Ban, Ban, Ban, Ban, Ban, Pick, Pick, Pick, Pick, Pick, Pick, Pick, Pick, Pick, Pick]"
  "map da_team createDraftActions = [Blue, Red, Blue, Red, Blue, Red, Blue, Red, Red, Blue, Blue, Red, Red, Blue, Blue, Red]"
  "map da_isActive createDraftActions = [True, False, False, False, False, False, False, False, False, False, False, False, False, False, False, False]"
  by (simp_all add: createDraftActions_list)


lemma tryMatchPlayers_cases:
  "tryMatchPlayers st draftId now = (r, st') \<Longrightarrow>
     ((r = Some (False, None) \<or> r = None) \<and> st' = st) \<or>
     (r = Some (True, Some draftId) \<and>
       (\<exists>d q. st' = st \<lparr> st_drafts := (st_drafts st)(draftId \<mapsto> d), st_queue := q \<rparr>
          \<and> ds_status d = Waiting \<and> ds_currentPhase d = 0 \<and> ds_actions d = createDraftActions))"
  unfolding tryMatchPlayers_def Let_def
  by (auto split: if_splits option.splits prod.splits)

text \<open>
  C8. A draft session that \<open>tryMatchPlayers\<close> creates is waiting at phase index 0 and
  carries sixteen actions with phases 0 to 15: six bans for blue, red, blue, red, blue,
  red, then ten picks for blue, red, red, blue, blue, red, red, blue, blue, red; the action
  at index 0 is active and no other is.
\<close>

theorem new_session_action_template:
  assumes "tryMatchPlayers st draftId now = (Some (True, Some draftId'), st')"
  shows "\<exists>d. st_drafts st' draftId' = Some d \<and> ds_status d = Waiting \<and> ds_currentPhase d = 0
     \<and> length (ds_actions d) = 16
     \<and> map da_phase (ds_actions d) = [0, 1, 2, 3, 4, 5, 6, 7, 8, 9, 10, 11, 12, 13, 14, 15]
     \<and> map da_type (ds_actions d) =
         [Ban, Ban, Ban, Ban, Ban, Ban, Pick, Pick, Pick, Pick, Pick, Pick, Pick, Pick, Pick, Pick]
     \<and> map da_team (ds_actions d) =
         [Blue, Red, Blue, Red, Blue, Red, Blue, Red, Red, Blue, Blue, Red, Red, Blue, Blue, Red]
     \<and> map da_isActive (ds_actions d) =
         [True, False, False, False, False, False, False, False, False, False, False, False,
          False, False, False, False]"
proof -
  from tryMatchPlayers_cases [OF assms] obtain d q where
    e: "draftId' = draftId"
      "st' = st \<lparr> st_drafts := (st_drafts st)(draftId \<mapsto> d), st_queue := q \<rparr>"
      "ds_status d = Waiting" "ds_currentPhase d = 0" "ds_actions d = createDraftActions"
    by auto
  have l: "st_drafts st' draftId' = Some d" unfolding e(1,2) by simp
  show ?thesis
    by (rule exI [of _ d]) (simp add: l e(3,4,5) createDraftActions_props)
qed

text \<open>The theorem applied to the match formed from the example queue.\<close>

theorem new_session_action_template_witness:
  "tryMatchPlayers c_store ''draft0001'' 100 = (Some (True, Some ''draft0001''), c_waiting)
   \<and> map_option (\<lambda>d. map da_team (ds_actions d)) (st_drafts c_waiting ''draft0001'') =
       Some [Blue, Red, Blue, Red, Blue, Red, Blue, Red, Red, Blue, Blue, Red, Red, Blue, Blue,
             Red]"
  using new_session_action_template [OF c_store_found] c_store_found by auto

section \<open>Properties of the draft state machine\<close>





lemma draftActionTransaction_success:
  assumes "draftActionTransaction d userId req now password = Inr (r, d')"
  shows "ds_status d \<in> {Banning, Picking}"
    and "ds_currentPhase d < length (ds_actions d)"
    and "da_isActive (ds_actions d ! ds_currentPhase d)"
    and "isParticipant (if da_team (ds_actions d ! ds_currentPhase d) = Blue
                        then ds_blueTeam d else ds_redTeam d) userId"
    and "ad_championId req \<notin> set (ds_bannedChampions d)"
    and "ad_championId req \<notin> set (pickedChampions (ds_actions d))"
    and "length (ds_actions d') = length (ds_actions d)"
    and "\<not> da_isActive (ds_actions d' ! ds_currentPhase d)"
    and "da_championId (ds_actions d' ! ds_currentPhase d) = Some (ad_championId req)"
    and "(ds_status d' = Completed \<and> ds_currentPhase d' = ds_currentPhase d
            \<and> Suc (ds_currentPhase d) = length (ds_actions d) \<and> r = (None, True))
         \<or> (ds_status d' \<in> {Banning, Picking} \<and> ds_currentPhase d' = Suc (ds_currentPhase d)
            \<and> Suc (ds_currentPhase d) < length (ds_actions d)
            \<and> r = (Some (Suc (ds_currentPhase d)), False)
            \<and> (\<forall>i<length (ds_actions d). i \<noteq> ds_currentPhase d \<longrightarrow>
                  da_isActive (ds_actions d' ! i)
                    = (i = Suc (ds_currentPhase d) \<or> da_isActive (ds_actions d ! i))))"
    and "\<forall>i<length (ds_actions d). i \<noteq> ds_currentPhase d \<and> i \<noteq> Suc (ds_currentPhase d) \<longrightarrow>
           ds_actions d' ! i = ds_actions d ! i"
  using assms unfolding draftActionTransaction_def Let_def
  by (auto split: if_splits team.splits simp: nth_list_update)

lemma makeDraftAction_effect:
  "(\<exists>e. makeDraftAction st auth req now password = (Inl e, st)) \<or>
   (\<exists>userId d d' r. auth = Some userId \<and> st_drafts st (ad_draftId req) = Some d
      \<and> draftActionTransaction d userId req now password = Inr (r, d')
      \<and> makeDraftAction st auth req now password
           = (Inr r, st \<lparr> st_drafts := (st_drafts st)(ad_draftId req \<mapsto> d') \<rparr>))"
  unfolding makeDraftAction_def
  by (auto split: option.splits sum.splits)












text \<open>
  C1. A call of \<open>makeDraftAction\<close> that fails leaves the store as it was. A call that
  succeeds was made by an authenticated user on a session whose status is banning or
  picking, whose action at the current phase index is active, on whose acting team the
  caller plays, with a champion that is neither banned nor picked. It resolves that
  action (inactive, champion recorded) and either completes the draft or moves the phase
  index on by one; a further successful submission to the session leaves the resolved
  action as it is, so one submission succeeds for a phase index.
\<close>

theorem makeDraftAction_checks_and_resolves_once:
  assumes "makeDraftAction st auth req now password = (res, st')"
  shows "case res of
           Inl e \<Rightarrow> st' = st
         | Inr r \<Rightarrow>
             (\<exists>userId d d'. auth = Some userId \<and> st_drafts st (ad_draftId req) = Some d
                \<and> ds_status d \<in> {Banning, Picking}
                \<and> ds_currentPhase d < length (ds_actions d)
                \<and> da_isActive (ds_actions d ! ds_currentPhase d)
                \<and> isParticipant (if da_team (ds_actions d ! ds_currentPhase d) = Blue
                                  then ds_blueTeam d else ds_redTeam d) userId
                \<and> ad_championId req \<notin> set (ds_bannedChampions d) \<union> set (pickedChampions (ds_actions d))
                \<and> st' = st \<lparr> st_drafts := (st_drafts st)(ad_draftId req \<mapsto> d') \<rparr>
                \<and> \<not> da_isActive (ds_actions d' ! ds_currentPhase d)
                \<and> da_championId (ds_actions d' ! ds_currentPhase d) = Some (ad_championId req)
                \<and> (ds_status d' = Completed \<and> ds_currentPhase d' = ds_currentPhase d
                    \<or> ds_status d' \<in> {Banning, Picking}
                      \<and> ds_currentPhase d' = Suc (ds_currentPhase d))
                \<and> (\<forall>auth2 req2 now2 password2 r2 st''.
                      ad_draftId req2 = ad_draftId req
                      \<and> makeDraftAction st' auth2 req2 now2 password2 = (Inr r2, st'')
                      \<longrightarrow> (\<exists>d''. st_drafts st'' (ad_draftId req) = Some d''
                             \<and> ds_currentPhase d'' \<noteq> ds_currentPhase d
                             \<and> ds_actions d'' ! ds_currentPhase d
                                 = ds_actions d' ! ds_currentPhase d)))"
proof -
  from makeDraftAction_effect [of st auth req now password] show ?thesis
  proof
    assume "\<exists>e. makeDraftAction st auth req now password = (Inl e, st)"
    then show ?thesis using assms by auto
  next
    assume "\<exists>userId d d' r. auth = Some userId \<and> st_drafts st (ad_draftId req) = Some d
      \<and> draftActionTransaction d userId req now password = Inr (r, d')
      \<and> makeDraftAction st auth req now password
           = (Inr r, st \<lparr> st_drafts := (st_drafts st)(ad_draftId req \<mapsto> d') \<rparr>)"
    then obtain userId d d' r where e: "auth = Some userId" "st_drafts st (ad_draftId req) = Some d"
      "draftActionTransaction d userId req now password = Inr (r, d')"
      "makeDraftAction st auth req now password
           = (Inr r, st \<lparr> st_drafts := (st_drafts st)(ad_draftId req \<mapsto> d') \<rparr>)"
      by blast
    note s = draftActionTransaction_success [OF e(3)]
    have res: "res = Inr r"
      and st': "st' = st \<lparr> st_drafts := (st_drafts st)(ad_draftId req \<mapsto> d') \<rparr>"
      using e(4) assms by simp_all
    have un: "ad_championId req \<notin> set (ds_bannedChampions d) \<union> set (pickedChampions (ds_actions d))"
      using s(5,6) by simp
    have nx: "ds_status d' = Completed \<and> ds_currentPhase d' = ds_currentPhase d
                \<or> ds_status d' \<in> {Banning, Picking}
                  \<and> ds_currentPhase d' = Suc (ds_currentPhase d)"
      using s(10) by blast
    have later: "\<forall>auth2 req2 now2 password2 r2 st''.
                   ad_draftId req2 = ad_draftId req
                   \<and> makeDraftAction st' auth2 req2 now2 password2 = (Inr r2, st'')
                   \<longrightarrow> (\<exists>d''. st_drafts st'' (ad_draftId req) = Some d''
                          \<and> ds_currentPhase d'' \<noteq> ds_currentPhase d
                          \<and> ds_actions d'' ! ds_currentPhase d
                              = ds_actions d' ! ds_currentPhase d)"
    proof (intro allI impI)
      fix auth2 req2 now2 password2 r2 st''
      assume h: "ad_draftId req2 = ad_draftId req
                   \<and> makeDraftAction st' auth2 req2 now2 password2 = (Inr r2, st'')"
      have l: "st_drafts st' (ad_draftId req2) = Some d'" using st' h by simp
      from makeDraftAction_effect [of st' auth2 req2 now2 password2] h l
      obtain u2 d'' where t: "draftActionTransaction d' u2 req2 now2 password2 = Inr (r2, d'')"
        "st'' = st' \<lparr> st_drafts := (st_drafts st')(ad_draftId req2 \<mapsto> d'') \<rparr>"
        by auto
      note s2 = draftActionTransaction_success [OF t(1)]
      have p: "ds_currentPhase d' = Suc (ds_currentPhase d)" using s2(1) nx by auto
      have "ds_currentPhase d < length (ds_actions d')" using s(2,7) by simp
      then have "ds_actions d'' ! ds_currentPhase d = ds_actions d' ! ds_currentPhase d"
        using s2(11) p by simp
      moreover have "ds_currentPhase d'' \<noteq> ds_currentPhase d" using s2(10) p by auto
      ultimately show "\<exists>d''. st_drafts st'' (ad_draftId req) = Some d''
                          \<and> ds_currentPhase d'' \<noteq> ds_currentPhase d
                          \<and> ds_actions d'' ! ds_currentPhase d
                              = ds_actions d' ! ds_currentPhase d"
        using t(2) h by simp
    qed
    have "\<exists>userId d d'. auth = Some userId \<and> st_drafts st (ad_draftId req) = Some d
                \<and> ds_status d \<in> {Banning, Picking}
                \<and> ds_currentPhase d < length (ds_actions d)
                \<and> da_isActive (ds_actions d ! ds_currentPhase d)
                \<and> isParticipant (if da_team (ds_actions d ! ds_currentPhase d) = Blue
                                  then ds_blueTeam d else ds_redTeam d) userId
                \<and> ad_championId req \<notin> set (ds_bannedChampions d) \<union> set (pickedChampions (ds_actions d))
                \<and> st' = st \<lparr> st_drafts := (st_drafts st)(ad_draftId req \<mapsto> d') \<rparr>
                \<and> \<not> da_isActive (ds_actions d' ! ds_currentPhase d)
                \<and> da_championId (ds_actions d' ! ds_currentPhase d) = Some (ad_championId req)
                \<and> (ds_status d' = Completed \<and> ds_currentPhase d' = ds_currentPhase d
                    \<or> ds_status d' \<in> {Banning, Picking}
                      \<and> ds_currentPhase d' = Suc (ds_currentPhase d))
                \<and> (\<forall>auth2 req2 now2 password2 r2 st''.
                      ad_draftId req2 = ad_draftId req
                      \<and> makeDraftAction st' auth2 req2 now2 password2 = (Inr r2, st'')
                      \<longrightarrow> (\<exists>d''. st_drafts st'' (ad_draftId req) = Some d''
                             \<and> ds_currentPhase d'' \<noteq> ds_currentPhase d
                             \<and> ds_actions d'' ! ds_currentPhase d
                                 = ds_actions d' ! ds_currentPhase d))"
      by (intro exI [of _ userId] exI [of _ d] exI [of _ d'] conjI
            e(1) e(2) s(1) s(2) s(3) s(4) un st' s(8) s(9) nx later)
    then show ?thesis unfolding res by simp
  qed
qed

lemma c_first_ban:
  "fst (makeDraftAction c_banning (Some ''p01'') (c_request ''Aatrox'') 200 ''k3x9q2ab'')
     = Inr (Some 1, False)"
  by code_simp

text \<open>The theorem applied to the first ban of the example session.\<close>

theorem makeDraftAction_checks_and_resolves_once_witness:
  "fst (makeDraftAction c_banning (Some ''p01'') (c_request ''Aatrox'') 200 ''k3x9q2ab'')
     = Inr (Some 1, False)
   \<and> (\<exists>d. st_drafts c_banning ''draft0001'' = Some d \<and> ds_status d \<in> {Banning, Picking}
          \<and> da_isActive (ds_actions d ! ds_currentPhase d)
          \<and> isParticipant (if da_team (ds_actions d ! ds_currentPhase d) = Blue
                            then ds_blueTeam d else ds_redTeam d) ''p01'')"
proof -
  have "makeDraftAction c_banning (Some ''p01'') (c_request ''Aatrox'') 200 ''k3x9q2ab''
          = (Inr (Some 1, False),
             snd (makeDraftAction c_banning (Some ''p01'') (c_request ''Aatrox'') 200 ''k3x9q2ab''))"
    using c_first_ban by (simp add: prod_eq_iff)
  from makeDraftAction_checks_and_resolves_once [OF this] show ?thesis
    using c_first_ban by (auto simp: c_request_def)
qed




text \<open>
  C4 fails on the code: \<open>timeoutDraftAction\<close> checks neither the status nor the clock. The
  session of the example is reachable and completed; a participant's timeout call on it
  succeeds and sets its status to cancelled.
\<close>

theorem timeoutDraftAction_cancels_completed_session:
  "reachable c_completed
   \<and> map_option ds_status (st_drafts c_completed ''draft0001'') = Some Completed
   \<and> fst (timeoutDraftAction c_completed (Some ''p03'') ''draft0001'') = Inr ()
   \<and> map_option ds_status
       (st_drafts (snd (timeoutDraftAction c_completed (Some ''p03'') ''draft0001''))
          ''draft0001'') = Some Cancelled"
proof (intro conjI)
  show "reachable c_completed" by (rule c_completed_reachable)
  show "map_option ds_status (st_drafts c_completed ''draft0001'') = Some Completed"
    by (rule c_completed_status)
  show "fst (timeoutDraftAction c_completed (Some ''p03'') ''draft0001'') = Inr ()"
    by code_simp
  show "map_option ds_status
       (st_drafts (snd (timeoutDraftAction c_completed (Some ''p03'') ''draft0001''))
          ''draft0001'') = Some Cancelled"
    by code_simp
qed

text \<open>Hence the completed session does not stay completed.\<close>

theorem timeoutDraftAction_cancels_completed_session_witness:
  "map_option ds_status
     (st_drafts (snd (timeoutDraftAction c_completed (Some ''p03'') ''draft0001''))
        ''draft0001'') \<noteq> map_option ds_status (st_drafts c_completed ''draft0001'')"
proof -
  have a: "map_option ds_status
     (st_drafts (snd (timeoutDraftAction c_completed (Some ''p03'') ''draft0001''))
        ''draft0001'') = Some Cancelled"
    and b: "map_option ds_status (st_drafts c_completed ''draft0001'') = Some Completed"
    using timeoutDraftAction_cancels_completed_session by blast+
  show ?thesis unfolding a b by simp
qed


section \<open>Properties of team balancing\<close>

lemma foldl_mmr: "foldl (\<lambda>sum p. sum + qp_mmr p) a xs = a + sum_list (map qp_mmr xs)"
  by (induction xs arbitrary: a) simp_all

lemma teamTotal_sum: "teamTotal xs = sum_list (map qp_mmr xs)"
  by (simp add: teamTotal_def foldl_mmr)

lemma teamTotal_snoc: "teamTotal (xs @ [p]) = teamTotal xs + qp_mmr p"
  by (simp add: teamTotal_sum)

lemma sort_desc_first_two:
  assumes "sort_key (\<lambda>p. - qp_mmr p) xs = p1 # p2 # rest"
  shows "qp_mmr p2 \<le> qp_mmr p1"
proof -
  have "sorted (map (\<lambda>p. - qp_mmr p) (sort_key (\<lambda>p. - qp_mmr p) xs))" by (rule sorted_sort_key)
  then show ?thesis unfolding assms by simp
qed

lemma roleGap_nonneg: "0 \<le> roleGap players role"
  unfolding roleGap_def
  by (auto split: list.splits dest: sort_desc_first_two)

lemma balanceRole_Some:
  assumes "balanceRole players (b, r) role = Some (b', r')"
  shows "\<exists>p1 p2 rest. sort_key (\<lambda>p. - qp_mmr p) (filter (\<lambda>p. qp_role p = role) players) = p1 # p2 # rest
     \<and> (if teamTotal b \<le> teamTotal r then b' = b @ [p1] \<and> r' = r @ [p2]
         else b' = b @ [p2] \<and> r' = r @ [p1])"
  using assms unfolding balanceRole_def teamTotal_def Let_def
  by (auto split: list.splits if_splits)

lemma balanceRole_gap:
  assumes "balanceRole players (b, r) role = Some (b', r')"
    and "\<bar>teamTotal b - teamTotal r\<bar> \<le> G" and "roleGap players role \<le> G"
  shows "\<bar>teamTotal b' - teamTotal r'\<bar> \<le> G"
proof -
  obtain p1 p2 rest where s: "sort_key (\<lambda>p. - qp_mmr p) (filter (\<lambda>p. qp_role p = role) players) = p1 # p2 # rest"
    and c: "if teamTotal b \<le> teamTotal r then b' = b @ [p1] \<and> r' = r @ [p2]
         else b' = b @ [p2] \<and> r' = r @ [p1]"
    using balanceRole_Some [OF assms(1)] by blast
  have o: "qp_mmr p2 \<le> qp_mmr p1" using s by (rule sort_desc_first_two)
  have g: "qp_mmr p1 - qp_mmr p2 \<le> G" using assms(3) unfolding roleGap_def s by simp
  show ?thesis
  proof (cases "teamTotal b \<le> teamTotal r")
    case True
    then have "b' = b @ [p1]" "r' = r @ [p2]" using c by simp_all
    then show ?thesis using True o g assms(2) by (simp add: teamTotal_snoc)
  next
    case False
    then have "b' = b @ [p2]" "r' = r @ [p1]" using c by simp_all
    then show ?thesis using False o g assms(2) by (simp add: teamTotal_snoc)
  qed
qed

lemma balanceRoles_gap:
  assumes "balanceRoles players rs (b, r) = Some (b', r')"
    and "\<bar>teamTotal b - teamTotal r\<bar> \<le> G" and "\<forall>role\<in>set rs. roleGap players role \<le> G"
  shows "\<bar>teamTotal b' - teamTotal r'\<bar> \<le> G"
  using assms
proof (induction rs arbitrary: b r)
  case Nil
  then show ?case by simp
next
  case (Cons role rs)
  from Cons.prems(1) obtain b1 r1 where
    1: "balanceRole players (b, r) role = Some (b1, r1)"
    and 2: "balanceRoles players rs (b1, r1) = Some (b', r')"
    by (auto split: option.splits)
  have "\<bar>teamTotal b1 - teamTotal r1\<bar> \<le> G"
    using balanceRole_gap [OF 1 Cons.prems(2)] Cons.prems(3) by simp
  then show ?case using Cons.IH [OF 2] Cons.prems(3) by simp
qed

lemma largestRoleGap_ge: "role \<in> set roles \<Longrightarrow> roleGap players role \<le> largestRoleGap players"
  unfolding largestRoleGap_def by (simp add: Max_ge)

lemma largestRoleGap_nonneg: "0 \<le> largestRoleGap players"
proof -
  have "roleGap players Top \<le> largestRoleGap players"
    by (rule largestRoleGap_ge) (simp add: roles_def)
  then show ?thesis using roleGap_nonneg [of players Top] by linarith
qed

lemma balanceTeams_gap:
  assumes "balanceTeams players = Some (b, r)"
  shows "\<bar>teamTotal b - teamTotal r\<bar> \<le> largestRoleGap players"
  using balanceRoles_gap [OF assms [unfolded balanceTeams_def], of "largestRoleGap players"]
    largestRoleGap_nonneg largestRoleGap_ge
  by (simp add: teamTotal_def)

text \<open>
  The loop over the roles assigns greedily: an induction over the remaining roles, with
  the teams built so far as the accumulator.
\<close>

lemma sort_two:
  assumes "length xs = 2"
  shows "\<exists>p1 p2. sort_key f xs = [p1, p2] \<and> set xs = {p1, p2}"
proof -
  have "length (sort_key f xs) = 2" using assms by simp
  then obtain p1 p2 where "sort_key f xs = [p1, p2]"
    by (metis (no_types, lifting) One_nat_def Suc_1 length_0_conv length_Suc_conv)
  moreover have "set (sort_key f xs) = set xs" by simp
  ultimately show ?thesis by auto
qed

lemma balanceRoles_greedy:
  assumes "\<forall>role\<in>set rs. length (filter (\<lambda>p. qp_role p = role) players) = 2"
    and "length b = length r"
  shows "\<exists>b' r'. balanceRoles players rs (b, r) = Some (b @ b', r @ r')
     \<and> map qp_role b' = rs \<and> map qp_role r' = rs
     \<and> (\<forall>k<length rs. greedy_at players (b @ b') (r @ r') (length b + k) (rs ! k))"
  using assms
proof (induction rs arbitrary: b r)
  case Nil
  then show ?case by simp
next
  case (Cons role rs)
  let ?xs = "filter (\<lambda>p. qp_role p = role) players"
  have "length ?xs = 2" using Cons.prems(1) by simp
  then obtain p1 p2 where s: "sort_key (\<lambda>p. - qp_mmr p) ?xs = [p1, p2]" and e: "set ?xs = {p1, p2}"
    using sort_two by blast
  have o: "qp_mmr p2 \<le> qp_mmr p1" using s by (rule sort_desc_first_two)
  have rl: "qp_role p1 = role" "qp_role p2 = role" using e by auto
  define x where "x = (if teamTotal b \<le> teamTotal r then p1 else p2)"
  define y where "y = (if teamTotal b \<le> teamTotal r then p2 else p1)"
  have step: "balanceRole players (b, r) role = Some (b @ [x], r @ [y])"
    unfolding balanceRole_def x_def y_def by (simp add: s teamTotal_def Let_def)
  have xy: "set [x, y] = set ?xs" "qp_role x = role" "qp_role y = role"
    unfolding x_def y_def using e rl by auto
  have g: "if teamTotal b \<le> teamTotal r then qp_mmr y \<le> qp_mmr x else qp_mmr x \<le> qp_mmr y"
    unfolding x_def y_def using o by simp
  have "\<forall>role\<in>set rs. length (filter (\<lambda>p. qp_role p = role) players) = 2"
    using Cons.prems(1) by simp
  moreover have "length (b @ [x]) = length (r @ [y])" using Cons.prems(2) by simp
  ultimately obtain b'' r'' where
    ih: "balanceRoles players rs (b @ [x], r @ [y]) = Some ((b @ [x]) @ b'', (r @ [y]) @ r'')"
      "map qp_role b'' = rs" "map qp_role r'' = rs"
      "\<forall>k<length rs. greedy_at players ((b @ [x]) @ b'') ((r @ [y]) @ r'') (length (b @ [x]) + k) (rs ! k)"
    using Cons.IH [of "b @ [x]" "r @ [y]"] by blast
  have 1: "balanceRoles players (role # rs) (b, r) = Some (b @ (x # b''), r @ (y # r''))"
    using step ih(1) by simp
  have 2: "map qp_role (x # b'') = role # rs" "map qp_role (y # r'') = role # rs"
    using xy ih(2,3) by simp_all
  have 3: "greedy_at players (b @ (x # b'')) (r @ (y # r'')) (length b + k) ((role # rs) ! k)"
    if "k < length (role # rs)" for k
  proof (cases k)
    case 0
    have n: "(b @ x # b'') ! length b = x" "(r @ y # r'') ! length b = y"
      "take (length b) (b @ x # b'') = b" "take (length b) (r @ y # r'') = r"
      using Cons.prems(2) by (simp_all add: nth_append)
    show ?thesis unfolding 0 greedy_at_def add_0_right n nth_Cons_0 using xy(1) g by simp
  next
    case (Suc k')
    then have "k' < length rs" using that by simp
    then show ?thesis using ih(4) Suc by simp
  qed
  show ?case
    by (rule exI [of _ "x # b''"], rule exI [of _ "y # r''"]) (use 1 2 3 in blast)
qed

lemma balanceTeams_total:
  assumes "\<forall>role. length (filter (\<lambda>p. qp_role p = role) players) = 2"
  shows "\<exists>b r. balanceTeams players = Some (b, r)
     \<and> map qp_role b = roles \<and> map qp_role r = roles
     \<and> (\<forall>k<length roles. greedy_at players b r k (roles ! k))"
  using balanceRoles_greedy [of roles players "[]" "[]"] assms
  unfolding balanceTeams_def by auto

text \<open>
  C7. For ten players, two of each role, \<open>balanceTeams\<close> returns two teams that hold one
  player of each role in the order top, jungle, mid, adc, support; at each role the two
  players of the role are split between the teams, the higher-rated one going to the team
  whose running total is lower (to blue on a tie); and the gap between the two average
  ratings is at most the largest rating gap within a role.
\<close>

theorem balanceTeams_greedy_and_bounded:
  assumes "\<forall>role. length (filter (\<lambda>p. qp_role p = role) players) = 2"
  shows "\<exists>blueTeam redTeam. balanceTeams players = Some (blueTeam, redTeam)
     \<and> map qp_role blueTeam = roles \<and> map qp_role redTeam = roles
     \<and> (\<forall>k<5. set [blueTeam ! k, redTeam ! k] = set (filter (\<lambda>p. qp_role p = roles ! k) players)
           \<and> (if teamTotal (take k blueTeam) \<le> teamTotal (take k redTeam)
              then qp_mmr (redTeam ! k) \<le> qp_mmr (blueTeam ! k)
              else qp_mmr (blueTeam ! k) \<le> qp_mmr (redTeam ! k)))
     \<and> \<bar>teamTotal blueTeam / 5 - teamTotal redTeam / 5\<bar> \<le> largestRoleGap players"
proof -
  obtain b r where 1: "balanceTeams players = Some (b, r)"
    and 2: "map qp_role b = roles" "map qp_role r = roles"
    and 3: "\<forall>k<length roles. greedy_at players b r k (roles ! k)"
    using balanceTeams_total [OF assms] by blast
  have "\<bar>teamTotal b - teamTotal r\<bar> \<le> largestRoleGap players" using 1 by (rule balanceTeams_gap)
  then have 4: "\<bar>teamTotal b / 5 - teamTotal r / 5\<bar> \<le> largestRoleGap players"
    using largestRoleGap_nonneg [of players] by linarith
  have 5: "length roles = 5" by (simp add: roles_def)
  show ?thesis using 1 2 3 4 unfolding 5 greedy_at_def by blast
qed

lemma c7_pairs: "\<forall>role. length (filter (\<lambda>p. qp_role p = role) c7_players) = 2"
proof
  fix role
  show "length (filter (\<lambda>p. qp_role p = role) c7_players) = 2"
    by (cases role) (simp_all add: c7_players_def c_queue_def c_entry_def asQueuedPlayer_def)
qed

text \<open>The theorem applied to the ten players of the example queue.\<close>

theorem balanceTeams_greedy_and_bounded_witness:
  "(\<forall>role. length (filter (\<lambda>p. qp_role p = role) c7_players) = 2)
   \<and> (\<exists>b r. balanceTeams c7_players = Some (b, r)
         \<and> \<bar>teamTotal b / 5 - teamTotal r / 5\<bar> \<le> largestRoleGap c7_players)"
  using balanceTeams_greedy_and_bounded [OF c7_pairs] c7_pairs by blast

section \<open>Properties of the queue selection\<close>




























section \<open>Properties of the match submission\<close>

lemma calculateChanges_total:
  assumes "\<forall>ps\<in>set stats. \<exists>p\<in>set allPlayers. tp_odId p = ps_odId ps"
  shows "\<exists>r. calculateChanges st ctx allPlayers stats acc = Some r"
  using assms
proof (induction stats arbitrary: acc)
  case Nil
  then show ?case by simp
next
  case (Cons ps stats)
  obtain ch pm where acc: "acc = (ch, pm)" by (cases acc)
  obtain c sc b where m: "calculateMMRChange ps ctx (\<not> playerPlacementMap st (ps_odId ps)) = Some (c, sc, b)"
    using calculateMMRChange_total by blast
  have "\<exists>p\<in>set allPlayers. tp_odId p = ps_odId ps" using Cons.prems by simp
  then obtain pd where f: "find (\<lambda>p. tp_odId p = ps_odId ps) allPlayers = Some pd"
    by (cases "find (\<lambda>p. tp_odId p = ps_odId ps) allPlayers") (auto simp: find_None_iff)
  have "\<forall>ps\<in>set stats. \<exists>p\<in>set allPlayers. tp_odId p = ps_odId ps" using Cons.prems by simp
  from Cons.IH [OF this] show ?case unfolding acc by (simp add: m f Let_def)
qed

lemma allPlayerStats_ids:
  "\<forall>ps\<in>set (map (toPlayerStats st Blue) bt @ map (toPlayerStats st Red) rt).
      \<exists>p\<in>set (bt @ rt). tp_odId p = ps_odId ps"
  by (auto simp: toPlayerStats_def)

lemma submitMatchResult_commit_rejected:
  assumes "auth = Some uid" "sm_winner req = Some w" "sm_blueTeam req = Some bt"
    "sm_redTeam req = Some rt" "length bt = 5" "length rt = 5"
  shows "\<exists>m. submitMatchResult st auth req matchId now True False =
           (Inl (HttpsError internal ''Failed to submit match result''),
            st \<lparr> st_matches := (st_matches st)(matchId \<mapsto> m) \<rparr>)
         \<and> m_id m = matchId \<and> m_mmrProcessed m"
proof -
  let ?ctx = "\<lparr> mc_winner = w,
      mc_blueTeamAvgMmr = foldl (\<lambda>a b. a + b) 0 (map (\<lambda>p. playerMmrMap st (tp_odId p)) bt) / 5,
      mc_redTeamAvgMmr = foldl (\<lambda>a b. a + b) 0 (map (\<lambda>p. playerMmrMap st (tp_odId p)) rt) / 5,
      mc_allPlayerStats = map (toPlayerStats st Blue) bt @ map (toPlayerStats st Red) rt \<rparr>"
  obtain ch pm where c: "calculateChanges st ?ctx (bt @ rt)
      (map (toPlayerStats st Blue) bt @ map (toPlayerStats st Red) rt) ([], []) = Some (ch, pm)"
    using calculateChanges_total [where st = st and ctx = ?ctx and acc = "([], [])",
        OF allPlayerStats_ids [of st bt rt]] by auto
  show ?thesis
    unfolding submitMatchResult_def Let_def
    by (simp add: assms c, intro exI conjI, rule refl, simp_all)
qed

text \<open>
  C3 fails on the code: the match document is written by \<open>matchRef.set\<close> before, and apart
  from, the batch of rating writes. When the store accepts the first write and rejects the
  batch, the handler reports an internal error, the match document is stored with its
  processed flag set, and no rating has changed.
\<close>

theorem submitMatchResult_match_written_without_ratings:
  "st_matches c_completed ''match0001'' = None
   \<and> fst (submitMatchResult c_completed (Some ''p01'') c3_request ''match0001'' 500 True False)
       = Inl (HttpsError internal ''Failed to submit match result'')
   \<and> map_option m_mmrProcessed
       (st_matches (snd (submitMatchResult c_completed (Some ''p01'') c3_request ''match0001''
          500 True False)) ''match0001'') = Some True
   \<and> st_mmr (snd (submitMatchResult c_completed (Some ''p01'') c3_request ''match0001''
          500 True False)) = st_mmr c_completed"
proof -
  have n: "st_matches c_completed ''match0001'' = None" by code_simp
  have "\<exists>m. submitMatchResult c_completed (Some ''p01'') c3_request ''match0001'' 500 True False =
           (Inl (HttpsError internal ''Failed to submit match result''),
            c_completed \<lparr> st_matches := (st_matches c_completed)(''match0001'' \<mapsto> m) \<rparr>)
         \<and> m_id m = ''match0001'' \<and> m_mmrProcessed m"
    by (rule submitMatchResult_commit_rejected
          [where uid = "''p01''" and w = Blue and bt = c3_blue and rt = c3_red])
       (simp_all add: c3_request_def c3_blue_def c3_red_def)
  then show ?thesis using n by auto
qed

text \<open>Hence a match document exists although the rating writes were not applied.\<close>

theorem submitMatchResult_match_written_without_ratings_witness:
  "st_matches (snd (submitMatchResult c_completed (Some ''p01'') c3_request ''match0001''
      500 True False)) ''match0001'' \<noteq> st_matches c_completed ''match0001''"
proof -
  have a: "map_option m_mmrProcessed
       (st_matches (snd (submitMatchResult c_completed (Some ''p01'') c3_request ''match0001''
          500 True False)) ''match0001'') = Some True"
    and b: "st_matches c_completed ''match0001'' = None"
    using submitMatchResult_match_written_without_ratings by blast+
  show ?thesis using a unfolding b by auto
qed

end
